theory Spec2Isabelle
  imports Complex_Main
begin

section \<open>Python values used by the statement parsers\<close>

subsection \<open>Strings\<close>

text \<open>
  A Python \<^verbatim>\<open>str\<close> is a sequence of Unicode code points, so it is modelled as a list of
  natural numbers. ASCII literals are written with \<open>asc\<close>; Cyrillic literals are written
  as code-point lists with a transliteration beside them.
\<close>

type_synonym ustr = "nat list"

definition asc :: "string \<Rightarrow> ustr" where
  "asc s = map of_char s"

text \<open>\<^verbatim>\<open>str.isspace\<close>: the code points Python treats as whitespace in \<^verbatim>\<open>strip()\<close>
  and \<^verbatim>\<open>split()\<close>.\<close>

definition is_space :: "nat \<Rightarrow> bool" where
  "is_space c \<longleftrightarrow>
     (9 \<le> c \<and> c \<le> 13) \<or> (28 \<le> c \<and> c \<le> 32) \<or> c = 133 \<or> c = 160 \<or> c = 5760 \<or>
     (8192 \<le> c \<and> c \<le> 8202) \<or> c = 8232 \<or> c = 8233 \<or> c = 8239 \<or> c = 8287 \<or> c = 12288"

definition strip :: "ustr \<Rightarrow> ustr" where
  "strip s = rev (dropWhile is_space (rev (dropWhile is_space s)))"

text \<open>
  \<^verbatim>\<open>str.lower\<close> and \<^verbatim>\<open>str.upper\<close> on the alphabets bank statements are written in:
  ASCII, Latin-1 and the Cyrillic block U+0400..U+045F with U+0490/U+0491. Every other
  code point is left as it is (Python's full case tables are not reproduced).
\<close>

definition lower_cp :: "nat \<Rightarrow> nat" where
  "lower_cp c =
     (if 65 \<le> c \<and> c \<le> 90 then c + 32
      else if 192 \<le> c \<and> c \<le> 222 \<and> c \<noteq> 215 then c + 32
      else if 1040 \<le> c \<and> c \<le> 1071 then c + 32
      else if 1024 \<le> c \<and> c \<le> 1039 then c + 80
      else if c = 1168 then 1169
      else c)"

definition lower :: "ustr \<Rightarrow> ustr" where
  "lower s = map lower_cp s"

definition upper_cp :: "nat \<Rightarrow> nat" where
  "upper_cp c =
     (if 97 \<le> c \<and> c \<le> 122 then c - 32
      else if 224 \<le> c \<and> c \<le> 254 \<and> c \<noteq> 247 then c - 32
      else if 1072 \<le> c \<and> c \<le> 1103 then c - 32
      else if 1104 \<le> c \<and> c \<le> 1119 then c - 80
      else if c = 1169 then 1168
      else c)"

definition upper :: "ustr \<Rightarrow> ustr" where
  "upper s = map upper_cp s"

text \<open>\<^verbatim>\<open>s.startswith(p)\<close> and \<^verbatim>\<open>sub in s\<close>.\<close>

fun startswith :: "ustr \<Rightarrow> ustr \<Rightarrow> bool" where
  "startswith s [] = True"
| "startswith [] (p # ps) = False"
| "startswith (c # cs) (p # ps) = (c = p \<and> startswith cs ps)"

fun contains :: "ustr \<Rightarrow> ustr \<Rightarrow> bool" where
  "contains [] sub = (sub = [])"
| "contains (c # cs) sub = (startswith (c # cs) sub \<or> contains cs sub)"

text \<open>\<^verbatim>\<open>s.replace(old, new)\<close> and \<^verbatim>\<open>s.count(old)\<close> for a one-character \<^verbatim>\<open>old\<close>, the
  only way the parsers call them.\<close>

definition replace1 :: "nat \<Rightarrow> ustr \<Rightarrow> ustr \<Rightarrow> ustr" where
  "replace1 old new s = concat (map (\<lambda>c. if c = old then new else [c]) s)"

definition count1 :: "nat \<Rightarrow> ustr \<Rightarrow> nat" where
  "count1 old s = length (filter (\<lambda>c. c = old) s)"

text \<open>\<^verbatim>\<open>s.split()\<close>: the maximal runs of non-whitespace; \<open>cur\<close> is the word being read.\<close>

fun split_acc :: "ustr \<Rightarrow> ustr \<Rightarrow> ustr list" where
  "split_acc cur [] = (if cur = [] then [] else [cur])"
| "split_acc cur (c # cs) =
     (if is_space c then (if cur = [] then split_acc [] cs else cur # split_acc [] cs)
      else split_acc (cur @ [c]) cs)"

definition split :: "ustr \<Rightarrow> ustr list" where
  "split s = split_acc [] s"

subsection \<open>Floats\<close>

text \<open>
  A Python \<^verbatim>\<open>float\<close>. The finite values are modelled by the rational number the
  decimal text denotes (rounding to binary64 and overflow are not modelled); the three
  special values that \<^verbatim>\<open>float()\<close> also reads from text are kept apart, because
  comparisons treat them differently.
\<close>

datatype pyfloat = Fin rat | PInf | NInf | NaN

fun fl_lt :: "pyfloat \<Rightarrow> pyfloat \<Rightarrow> bool" where
  "fl_lt NaN y = False"
| "fl_lt x NaN = False"
| "fl_lt (Fin a) (Fin b) = (a < b)"
| "fl_lt (Fin a) PInf = True"
| "fl_lt (Fin a) NInf = False"
| "fl_lt PInf y = False"
| "fl_lt NInf (Fin b) = True"
| "fl_lt NInf PInf = True"
| "fl_lt NInf NInf = False"

definition fl_gt :: "pyfloat \<Rightarrow> pyfloat \<Rightarrow> bool" where
  "fl_gt x y = fl_lt y x"

text \<open>\<^verbatim>\<open>x >= y\<close>: false as soon as one side is NaN.\<close>

fun fl_ge :: "pyfloat \<Rightarrow> pyfloat \<Rightarrow> bool" where
  "fl_ge NaN y = False"
| "fl_ge x NaN = False"
| "fl_ge x y = (\<not> fl_lt x y)"

fun fl_neg :: "pyfloat \<Rightarrow> pyfloat" where
  "fl_neg (Fin a) = Fin (- a)"
| "fl_neg PInf = NInf"
| "fl_neg NInf = PInf"
| "fl_neg NaN = NaN"

fun fl_abs :: "pyfloat \<Rightarrow> pyfloat" where
  "fl_abs (Fin a) = Fin \<bar>a\<bar>"
| "fl_abs PInf = PInf"
| "fl_abs NInf = PInf"
| "fl_abs NaN = NaN"

text \<open>Truthiness of a float: only zero is false.\<close>

definition fl_truthy :: "pyfloat \<Rightarrow> bool" where
  "fl_truthy x \<longleftrightarrow> x \<noteq> Fin 0"

text \<open>
  \<^verbatim>\<open>float(text)\<close>, with \<open>None\<close> for \<^verbatim>\<open>ValueError\<close>. The text is stripped; a sign may
  follow; then either one of the words \<^verbatim>\<open>inf\<close>, \<^verbatim>\<open>infinity\<close>, \<^verbatim>\<open>nan\<close> in any case, or
  a decimal number with an optional fraction and exponent. Underscores are accepted
  between digits as CPython does. Non-ASCII decimal digits, which CPython also reads,
  are not modelled.
\<close>

definition is_digit :: "nat \<Rightarrow> bool" where
  "is_digit c \<longleftrightarrow> 48 \<le> c \<and> c \<le> 57"

fun digits_val :: "nat \<Rightarrow> ustr \<Rightarrow> nat" where
  "digits_val acc [] = acc"
| "digits_val acc (c # cs) = digits_val (10 * acc + (c - 48)) cs"

text \<open>CPython's check of underscores: each one stands after a digit and before a digit.
  \<open>prev\<close> is the previous character (0 at the start).\<close>

fun drop_underscores :: "nat \<Rightarrow> ustr \<Rightarrow> ustr option" where
  "drop_underscores prev [] = (if prev = 95 then None else Some [])"
| "drop_underscores prev (c # cs) =
     (if c = 95 then (if is_digit prev then drop_underscores c cs else None)
      else if prev = 95 \<and> \<not> is_digit c then None
      else map_option (\<lambda>r. c # r) (drop_underscores c cs))"

text \<open>The exponent part: empty, or \<^verbatim>\<open>e\<close>/\<^verbatim>\<open>E\<close>, an optional sign and at least one digit.\<close>

definition parse_exponent :: "ustr \<Rightarrow> int option" where
  "parse_exponent s =
     (case s of
        [] \<Rightarrow> Some 0
      | c # r \<Rightarrow>
          if c = 101 \<or> c = 69 then
            (let neg = (r \<noteq> [] \<and> hd r = 45);
                 ds = (if r \<noteq> [] \<and> (hd r = 45 \<or> hd r = 43) then tl r else r)
             in if ds \<noteq> [] \<and> list_all is_digit ds
                then Some (if neg then - int (digits_val 0 ds) else int (digits_val 0 ds))
                else None)
          else None)"

definition parse_decimal :: "ustr \<Rightarrow> rat option" where
  "parse_decimal s =
     (let ip = takeWhile is_digit s;
          r1 = dropWhile is_digit s;
          fp = (if r1 \<noteq> [] \<and> hd r1 = 46 then takeWhile is_digit (tl r1) else []);
          r2 = (if r1 \<noteq> [] \<and> hd r1 = 46 then dropWhile is_digit (tl r1) else r1)
      in if ip = [] \<and> fp = [] then None
         else (case parse_exponent r2 of
                 None \<Rightarrow> None
               | Some e \<Rightarrow>
                   (let m = of_nat (digits_val 0 (ip @ fp)); k = e - int (length fp)
                    in Some (if 0 \<le> k then m * 10 ^ nat k else m / 10 ^ nat (- k)))))"

definition parse_unsigned :: "ustr \<Rightarrow> pyfloat option" where
  "parse_unsigned s =
     (if lower s = asc ''inf'' \<or> lower s = asc ''infinity'' then Some PInf
      else if lower s = asc ''nan'' then Some NaN
      else map_option Fin (parse_decimal s))"

definition py_float :: "ustr \<Rightarrow> pyfloat option" where
  "py_float text =
     (case drop_underscores 0 (strip text) of
        None \<Rightarrow> None
      | Some s \<Rightarrow>
          (case s of
             [] \<Rightarrow> None
           | c # r \<Rightarrow>
               if c = 45 then map_option fl_neg (parse_unsigned r)
               else if c = 43 then parse_unsigned r
               else parse_unsigned s))"

section \<open>The CSV parser (src/ai/csv\_parser.py)\<close>

subsection \<open>Field parsers\<close>

text \<open>\<^verbatim>\<open>_parse_amount\<close>: 160 is the no-break space, 32 the space, 44 the comma and 46
  the dot.\<close>

definition parse_amount :: "ustr \<Rightarrow> pyfloat option" where
  "parse_amount raw =
     (if raw = [] \<or> strip raw = [] then None
      else
        (let cleaned = replace1 32 [] (replace1 160 [] (strip raw));
             cleaned' =
               (if count1 44 cleaned = 1 \<and> count1 46 cleaned = 0 then replace1 44 [46] cleaned
                else if 1 \<le> count1 44 cleaned then replace1 44 [] cleaned
                else cleaned)
         in py_float cleaned'))"

text \<open>
  One CSV record as \<^verbatim>\<open>csv.DictReader\<close> yields it: the header names with the cell of
  each, in column order; a cell the line does not have is \<open>None\<close>.
\<close>

type_synonym csv_row = "(ustr \<times> ustr option) list"

text \<open>\<^verbatim>\<open>x or ""\<close> on a text that may be \<open>None\<close> (a cell, the text of a page).\<close>

definition or_empty :: "ustr option \<Rightarrow> ustr" where
  "or_empty x = (case x of None \<Rightarrow> [] | Some s \<Rightarrow> s)"

text \<open>\<^verbatim>\<open>_get\<close>: the first of the alternative keys that names a column (compared
  lower-cased and stripped) gives the stripped cell; the default is the empty string.\<close>

fun get_key :: "csv_row \<Rightarrow> ustr \<Rightarrow> ustr option" where
  "get_key [] key = None"
| "get_key ((k, v) # row) key =
     (if strip (lower k) = strip (lower key)
      then Some (strip (or_empty v))
      else get_key row key)"

fun get :: "csv_row \<Rightarrow> ustr list \<Rightarrow> ustr" where
  "get row [] = []"
| "get row (key # keys) = (case get_key row key of Some v \<Rightarrow> v | None \<Rightarrow> get row keys)"

text \<open>
  Dates are read by \<^verbatim>\<open>datetime.strptime\<close> and defaulted by \<^verbatim>\<open>datetime.now()\<close>. No
  property below depends on what they return, so the two date parsers and the clock
  are parameters, over any type \<open>'d\<close> of time stamps.
\<close>

record 'd clock =
  parse_date :: "ustr \<Rightarrow> 'd option"
  parse_abank_date :: "ustr \<Rightarrow> 'd option"
  now :: "'d"

text \<open>\<^verbatim>\<open>_parse_date(raw) or datetime.now()\<close>.\<close>

definition date_or_now :: "'d clock \<Rightarrow> ustr \<Rightarrow> 'd" where
  "date_or_now ck raw = (case parse_date ck raw of Some d \<Rightarrow> d | None \<Rightarrow> now ck)"

subsection \<open>Rows\<close>

text \<open>The dictionary a row parser returns (RawRow), and the one a pipeline emits
  (CategorizedRow) with its \<^verbatim>\<open>metadata\<close>. \<open>is_outgoing\<close> is \<open>None\<close> where the key is
  absent.\<close>

datatype flow = Expense | Income | Transfer

datatype bank = MONO | PRIVAT | OSCHADBANK | RAIFFEISEN | PUMB | ABANK | GENERIC

record 'd raw_row =
  r_date :: "'d"
  r_amount :: pyfloat
  r_description :: ustr
  r_mcc :: ustr

record metadata =
  raw_category :: ustr
  m_mcc :: ustr
  m_bank :: bank
  is_outgoing :: "bool option"

record 'd categorized_row =
  user_id :: ustr
  c_amount :: pyfloat
  c_type :: flow
  category_id :: "ustr option"
  c_description :: "ustr option"
  source :: ustr
  ignore_in_stats :: bool
  transaction_date :: "'d"
  c_metadata :: metadata

subsection \<open>Rule tables\<close>

text \<open>The category names, each a constant holding the code points of the name.\<close>

definition c_Supermarkety :: ustr where
  "c_Supermarkety = [1057, 1091, 1087, 1077, 1088, 1084, 1072, 1088, 1082, 1077, 1090, 1080]"

definition c_Kava_Sneky :: ustr where
  "c_Kava_Sneky = [1050, 1072, 1074, 1072, 47, 1057, 1085, 1077, 1082, 1080]"

definition c_Zaklady :: ustr where
  "c_Zaklady = [1047, 1072, 1082, 1083, 1072, 1076, 1080]"

definition c_Liky_Likari :: ustr where
  "c_Liky_Likari = [1051, 1110, 1082, 1080, 47, 1051, 1110, 1082, 1072, 1088, 1110]"

definition c_Podiyi_Khobi :: ustr where
  "c_Podiyi_Khobi = [1055, 1086, 1076, 1110, 1111, 47, 1061, 1086, 1073, 1110]"

definition c_Sportzal :: ustr where
  "c_Sportzal = [1057, 1087, 1086, 1088, 1090, 1079, 1072, 1083]"

definition c_Odyah_Vzuttya :: ustr where
  "c_Odyah_Vzuttya = [1054, 1076, 1103, 1075, 47, 1042, 1079, 1091, 1090, 1090, 1103]"

definition c_Elektronika :: ustr where
  "c_Elektronika = [1045, 1083, 1077, 1082, 1090, 1088, 1086, 1085, 1110, 1082, 1072]"

definition c_Servisy_Pidpysky :: ustr where
  "c_Servisy_Pidpysky = [1057, 1077, 1088, 1074, 1110, 1089, 1080, 47, 1055, 1110, 1076, 1087, 1080, 1089, 1082, 1080]"

definition c_Tovary_dlya_domu :: ustr where
  "c_Tovary_dlya_domu = [1058, 1086, 1074, 1072, 1088, 1080, 32, 1076, 1083, 1103, 32, 1076, 1086, 1084, 1091]"

definition c_Avto :: ustr where
  "c_Avto = [1040, 1074, 1090, 1086]"

definition c_Taksi_Hromadskyj :: ustr where
  "c_Taksi_Hromadskyj = [1058, 1072, 1082, 1089, 1110, 47, 1043, 1088, 1086, 1084, 1072, 1076, 1089, 1100, 1082, 1080, 1081]"

definition c_Orenda_Komunalni :: ustr where
  "c_Orenda_Komunalni = [1054, 1088, 1077, 1085, 1076, 1072, 47, 1050, 1086, 1084, 1091, 1085, 1072, 1083, 1100, 1085, 1110]"

definition c_Zvyazok :: ustr where
  "c_Zvyazok = [1047, 1074, 39, 1103, 1079, 1086, 1082]"

definition c_Osvita :: ustr where
  "c_Osvita = [1054, 1089, 1074, 1110, 1090, 1072]"

definition c_Byuti :: ustr where
  "c_Byuti = [1041, 39, 1102, 1090, 1110]"

definition c_Rozvazhalni_pidpysky :: ustr where
  "c_Rozvazhalni_pidpysky = [1056, 1086, 1079, 1074, 1072, 1078, 1072, 1083, 1100, 1085, 1110, 32, 1087, 1110, 1076, 1087, 1080, 1089, 1082, 1080]"

definition c_Perekaz_inshe :: ustr where
  "c_Perekaz_inshe = [1055, 1077, 1088, 1077, 1082, 1072, 1079, 32, 40, 1110, 1085, 1096, 1077, 41]"

definition c_Obmin_valyut :: ustr where
  "c_Obmin_valyut = [1054, 1073, 1084, 1110, 1085, 32, 1074, 1072, 1083, 1102, 1090]"

definition c_Zarplata :: ustr where
  "c_Zarplata = [1047, 1072, 1088, 1087, 1083, 1072, 1090, 1072]"

definition c_Frilans :: ustr where
  "c_Frilans = [1060, 1088, 1110, 1083, 1072, 1085, 1089]"

definition c_Inshyj_dokhid :: ustr where
  "c_Inshyj_dokhid = [1030, 1085, 1096, 1080, 1081, 32, 1076, 1086, 1093, 1110, 1076]"

definition c_Podarunok :: ustr where
  "c_Podarunok = [1055, 1086, 1076, 1072, 1088, 1091, 1085, 1086, 1082]"

definition c_Investytsiyi_Skarbnychka :: ustr where
  "c_Investytsiyi_Skarbnychka = [1030, 1085, 1074, 1077, 1089, 1090, 1080, 1094, 1110, 1111, 47, 1057, 1082, 1072, 1088, 1073, 1085, 1080, 1095, 1082, 1072]"

definition c_ZSU_Volontery :: ustr where
  "c_ZSU_Volontery = [1047, 1057, 1059, 47, 1042, 1086, 1083, 1086, 1085, 1090, 1077, 1088, 1080]"

definition c_Komisiyi_bankiv :: ustr where
  "c_Komisiyi_bankiv = [1050, 1086, 1084, 1110, 1089, 1110, 1111, 32, 1073, 1072, 1085, 1082, 1110, 1074]"

definition c_Inshe :: ustr where
  "c_Inshe = [1030, 1085, 1096, 1077]"

definition c_Perekaz_lyudyni :: ustr where
  "c_Perekaz_lyudyni = [1055, 1077, 1088, 1077, 1082, 1072, 1079, 32, 40, 1083, 1102, 1076, 1080, 1085, 1110, 41]"

text \<open>\<^verbatim>\<open>MCC_TO_CATEGORY\<close>, in the order of the source.\<close>

definition MCC_TO_CATEGORY :: "(ustr \<times> ustr \<times> flow) list" where
  "MCC_TO_CATEGORY =
     [(asc ''5411'', c_Supermarkety, Expense),
      (asc ''5412'', c_Supermarkety, Expense),
      (asc ''5499'', c_Supermarkety, Expense),
      (asc ''5441'', c_Kava_Sneky, Expense),
      (asc ''5814'', c_Zaklady, Expense),
      (asc ''5812'', c_Zaklady, Expense),
      (asc ''5813'', c_Zaklady, Expense),
      (asc ''5912'', c_Liky_Likari, Expense),
      (asc ''8011'', c_Liky_Likari, Expense),
      (asc ''8021'', c_Liky_Likari, Expense),
      (asc ''8099'', c_Liky_Likari, Expense),
      (asc ''8062'', c_Liky_Likari, Expense),
      (asc ''7922'', c_Podiyi_Khobi, Expense),
      (asc ''7929'', c_Podiyi_Khobi, Expense),
      (asc ''7941'', c_Sportzal, Expense),
      (asc ''7997'', c_Sportzal, Expense),
      (asc ''5661'', c_Odyah_Vzuttya, Expense),
      (asc ''5691'', c_Odyah_Vzuttya, Expense),
      (asc ''5651'', c_Odyah_Vzuttya, Expense),
      (asc ''5948'', c_Odyah_Vzuttya, Expense),
      (asc ''5732'', c_Elektronika, Expense),
      (asc ''5734'', c_Servisy_Pidpysky, Expense),
      (asc ''5045'', c_Elektronika, Expense),
      (asc ''5999'', c_Tovary_dlya_domu, Expense),
      (asc ''5200'', c_Tovary_dlya_domu, Expense),
      (asc ''5251'', c_Tovary_dlya_domu, Expense),
      (asc ''5511'', c_Avto, Expense),
      (asc ''5521'', c_Avto, Expense),
      (asc ''5541'', c_Avto, Expense),
      (asc ''5542'', c_Avto, Expense),
      (asc ''7523'', c_Avto, Expense),
      (asc ''7538'', c_Avto, Expense),
      (asc ''4111'', c_Taksi_Hromadskyj, Expense),
      (asc ''4121'', c_Taksi_Hromadskyj, Expense),
      (asc ''4131'', c_Taksi_Hromadskyj, Expense),
      (asc ''7512'', c_Taksi_Hromadskyj, Expense),
      (asc ''4900'', c_Orenda_Komunalni, Expense),
      (asc ''4814'', c_Zvyazok, Expense),
      (asc ''4812'', c_Zvyazok, Expense),
      (asc ''8220'', c_Osvita, Expense),
      (asc ''8299'', c_Osvita, Expense),
      (asc ''7230'', c_Byuti, Expense),
      (asc ''7011'', c_Rozvazhalni_pidpysky, Expense),
      (asc ''6011'', c_Perekaz_inshe, Transfer),
      (asc ''6012'', c_Perekaz_inshe, Transfer),
      (asc ''6010'', c_Perekaz_inshe, Transfer),
      (asc ''6051'', c_Obmin_valyut, Transfer),
      (asc ''6050'', c_Obmin_valyut, Transfer)]"

text \<open>\<^verbatim>\<open>KEYWORD_RULES\<close>: keyword lists with their category and type, in the order
  of the source.\<close>

definition KEYWORD_RULES :: "(ustr list \<times> ustr \<times> flow) list" where
  "KEYWORD_RULES =
     [([[1089, 1110, 1083, 1100, 1087, 1086], \<comment> \<open>sil'po\<close>
        asc ''silpo'',
        asc ''atb'',
        [1072, 1090, 1073], \<comment> \<open>atb\<close>
        asc ''novus'',
        [1085, 1086, 1074, 1091, 1089], \<comment> \<open>novus\<close>
        asc ''metro cash'',
        asc ''auchan'',
        [1072, 1096, 1072, 1085], \<comment> \<open>ashan\<close>
        asc ''fozzy'',
        [1092, 1086, 1079, 1079, 1110], \<comment> \<open>fozzi\<close>
        [1074, 1077, 1083, 1084, 1072, 1088, 1090], \<comment> \<open>velmart\<close>
        [1074, 1077, 1083, 1080, 1082, 1072, 32, 1082, 1080, 1096, 1077, 1085, 1103], \<comment> \<open>velyka kyshenya\<close>
        asc ''billa'',
        [1073, 1110, 1083, 1083, 1072], \<comment> \<open>billa\<close>
        asc ''rukavychka'',
        asc ''rukavichka'',
        [1088, 1091, 1082, 1072, 1074, 1080, 1095, 1082, 1072], \<comment> \<open>rukavychka\<close>
        asc ''ultramarket'',
        [1091, 1083, 1100, 1090, 1088, 1072, 1084, 1072, 1088, 1082, 1077, 1090] \<comment> \<open>ul'tramarket\<close>],
       c_Supermarkety, Expense),
      ([asc ''kfc'',
        asc ''mcdonald'',
        [1084, 1072, 1082, 1076, 1086, 1085, 1072, 1083, 1100, 1076, 1089], \<comment> \<open>makdonal'ds\<close>
        asc ''burger king'',
        asc ''pizza hut'',
        asc ''pizza'',
        [1087, 1110, 1094, 1072], \<comment> \<open>pitsa\<close>
        [1089, 1091, 1096, 1110], \<comment> \<open>sushi\<close>
        asc ''sushi'',
        asc ''wok'',
        [1088, 1077, 1089, 1090, 1086, 1088, 1072, 1085], \<comment> \<open>restoran\<close>
        [1082, 1072, 1092, 1077], \<comment> \<open>kafe\<close>
        asc ''cafe'',
        [1087, 1080, 1074, 1086], \<comment> \<open>pyvo\<close>
        asc ''beer'',
        asc ''pub'',
        [1087, 1072, 1073], \<comment> \<open>pab\<close>
        [1096, 1072, 1091, 1088, 1084, 1072], \<comment> \<open>shaurma\<close>
        [1093, 1110, 1085, 1082, 1072, 1083, 1110], \<comment> \<open>khinkali\<close>
        asc ''puzata hata'',
        [1087, 1091, 1079, 1072, 1090, 1072, 32, 1093, 1072, 1090, 1072], \<comment> \<open>puzata khata\<close>
        asc ''chelentano'',
        asc ''celentano'',
        asc ''vapiano'',
        asc ''mafia'',
        [1103, 1082, 1080, 1090, 1086, 1088, 1080, 1103], \<comment> \<open>yakytoryya\<close>
        [1103, 1082, 1110, 1090, 1086, 1088, 1110, 1103] \<comment> \<open>yakitoriya\<close>],
       c_Zaklady, Expense),
      ([asc ''starbucks'',
        asc ''coffee'',
        [1082, 1072, 1074, 1072], \<comment> \<open>kava\<close>
        asc ''lavazza'',
        [1089, 1085, 1077, 1082], \<comment> \<open>snek\<close>
        asc ''snack'',
        [1095, 1072, 1081], \<comment> \<open>chaj\<close>
        asc ''bakery'',
        [1087, 1077, 1082, 1072, 1088, 1085, 1103], \<comment> \<open>pekarnya\<close>
        asc ''croissant'',
        [1082, 1088, 1091, 1072, 1089, 1072, 1085], \<comment> \<open>kruasan\<close>
        asc ''smoothie''],
       c_Kava_Sneky, Expense),
      ([asc ''bolt food'',
        asc ''bolt'',
        asc ''uber'',
        asc ''uklon'',
        [1091, 1082, 1083, 1086, 1085], \<comment> \<open>uklon\<close>
        asc ''taxi'',
        [1090, 1072, 1082, 1089, 1110], \<comment> \<open>taksi\<close>
        [1084, 1072, 1088, 1096, 1088, 1091, 1090, 1082, 1072], \<comment> \<open>marshrutka\<close>
        [1084, 1077, 1090, 1088, 1086], \<comment> \<open>metro\<close>
        asc ''ukrzaliznytsia'',
        [1091, 1082, 1088, 1079, 1072, 1083, 1110, 1079, 1085, 1080, 1094, 1103], \<comment> \<open>ukrzaliznytsya\<close>
        asc ''ryanair'',
        asc ''wizz'',
        asc ''wizzair'',
        [1090, 1091, 1088, 1072, 1075, 1077, 1085, 1090, 1089, 1090, 1074, 1086], \<comment> \<open>turahentstvo\<close>
        asc ''booking.com'',
        asc ''airbnb''],
       c_Taksi_Hromadskyj, Expense),
      ([asc ''shell'',
        asc ''wog'',
        asc ''okko'',
        asc ''socar'',
        [1072, 1079, 1089], \<comment> \<open>azs\<close>
        asc ''brsm'',
        [1091, 1082, 1088, 1085, 1072, 1092, 1090, 1072], \<comment> \<open>ukrnafta\<close>
        [1073, 1077, 1085, 1079, 1080, 1085], \<comment> \<open>benzyn\<close>
        [1072, 1074, 1090, 1086, 1089, 1077, 1088, 1074, 1110, 1089], \<comment> \<open>avtoservis\<close>
        [1096, 1080, 1085, 1086, 1084, 1086, 1085, 1090, 1072, 1078], \<comment> \<open>shynomontazh\<close>
        [1084, 1080, 1081, 1082, 1072, 32, 1072, 1074, 1090, 1086], \<comment> \<open>myjka avto\<close>
        [1072, 1074, 1090, 1086, 1084, 1080, 1081, 1082, 1072], \<comment> \<open>avtomyjka\<close>
        [1087, 1072, 1088, 1082, 1086, 1074, 1082], \<comment> \<open>parkovk\<close>
        asc ''renault'',
        asc ''toyota'',
        asc ''volkswagen''],
       c_Avto, Expense),
      ([[1082, 1080, 1111, 1074, 1089, 1090, 1072, 1088], \<comment> \<open>kyyivstar\<close>
        asc ''kyivstar'',
        asc ''vodafone'',
        asc ''life'',
        [1083, 1072, 1081, 1092], \<comment> \<open>lajf\<close>
        [1110, 1085, 1090, 1077, 1088, 1085, 1077, 1090], \<comment> \<open>internet\<close>
        asc ''internet'',
        asc ''lifecell'',
        [1091, 1082, 1088, 1090, 1077, 1083, 1077, 1082, 1086, 1084], \<comment> \<open>ukrtelekom\<close>
        asc ''mobile'',
        asc ''sim'',
        [1090, 97, 114, 105, 1092] \<comment> \<open>tarif\<close>],
       c_Zvyazok, Expense),
      ([[1082, 1086, 1084, 1091, 1085, 1072, 1083, 1100, 1085, 1110], \<comment> \<open>komunal'ni\<close>
        [1082, 1086, 1084, 1091, 1085, 1072, 1083, 1100, 1085, 1072], \<comment> \<open>komunal'na\<close>
        [1074, 1086, 1076, 1086, 1082, 1072, 1085, 1072, 1083], \<comment> \<open>vodokanal\<close>
        [1075, 1072, 1079], \<comment> \<open>haz\<close>
        [1075, 1072, 1079, 1086, 1087, 1086, 1089, 1090, 1072, 1095, 1072, 1085, 1085, 1103], \<comment> \<open>hazopostachannya\<close>
        [1090, 1077, 1087, 1083, 1086, 1077, 1085, 1077, 1088, 1075, 1086], \<comment> \<open>teploenerho\<close>
        [1077, 1083, 1077, 1082, 1090, 1088, 1086], \<comment> \<open>elektro\<close>
        [1082, 1074, 1072, 1088, 1090, 1087, 1083, 1072, 1090, 1072], \<comment> \<open>kvartplata\<close>
        [1086, 1088, 1077, 1085, 1076, 1072], \<comment> \<open>orenda\<close>
        [1072, 1088, 1077, 1085, 1076, 1072], \<comment> \<open>arenda\<close>
        [1085, 1077, 1088, 1091, 1093, 1086, 1084, 1110, 1089, 1090, 1100], \<comment> \<open>nerukhomist'\<close>
        [1046, 1050, 1055], \<comment> \<open>ZhKP\<close>
        [1046, 1050, 1043] \<comment> \<open>ZhKH\<close>],
       c_Orenda_Komunalni, Expense),
      ([asc ''netflix'',
        asc ''spotify'',
        asc ''apple'',
        asc ''google play'',
        asc ''steam'',
        asc ''adobe'',
        asc ''microsoft'',
        asc ''subscri'',
        [1087, 1110, 1076, 1087, 1080, 1089, 1082, 1072], \<comment> \<open>pidpyska\<close>
        asc ''chatgpt'',
        asc ''openai'',
        asc ''claude'',
        asc ''anthropic'',
        asc ''midjourney'',
        asc ''figma'',
        asc ''canva'',
        asc ''notion'',
        asc ''patreon''],
       c_Servisy_Pidpysky, Expense),
      ([asc ''rozetka'',
        [1088, 1086, 1079, 1077, 1090, 1082, 1072], \<comment> \<open>rozetka\<close>
        asc ''foxtrot'',
        [1092, 1086, 1082, 1089, 1090, 1088, 1086, 1090], \<comment> \<open>fokstrot\<close>
        asc ''comfy'',
        asc ''eldorado'',
        [1077, 1083, 1100, 1076, 1086, 1088, 1072, 1076, 1086], \<comment> \<open>el'dorado\<close>
        asc ''moyo'',
        asc ''iphone'',
        asc ''samsung'',
        asc ''laptop'',
        asc ''lenovo'',
        asc ''dell'',
        asc ''apple store'',
        asc ''xiaomi''],
       c_Elektronika, Expense),
      ([[1079, 1072, 1088, 1087, 1083, 1072, 1090, 1072], \<comment> \<open>zarplata\<close>
        [1079, 1087], \<comment> \<open>zp\<close>
        asc ''salary'',
        [1072, 1074, 1072, 1085, 1089], \<comment> \<open>avans\<close>
        [1085, 1072, 1088, 1072, 1093, 1091, 1074, 1072, 1085, 1085, 1103, 32, 1079, 1087], \<comment> \<open>narakhuvannya zp\<close>
        [1074, 1080, 1087, 1083, 1072, 1090, 1072, 32, 1079, 1087], \<comment> \<open>vyplata zp\<close>
        [1079, 1072, 1088, 1086, 1073, 1110, 1090, 1085, 1072, 32, 1087, 1083, 1072, 1090, 1072], \<comment> \<open>zarobitna plata\<close>
        [1079, 1072, 1088, 1086, 1073, 1110, 1090, 1085, 1103, 32, 1087, 1083, 1072, 1090, 1072] \<comment> \<open>zarobitnya plata\<close>],
       c_Zarplata, Income),
      ([[1092, 1088, 1110, 1083, 1072, 1085, 1089], \<comment> \<open>frilans\<close>
        asc ''freelance'',
        asc ''upwork'',
        asc ''toptal'',
        [1086, 1087, 1083, 1072, 1090, 1072, 32, 1079, 1072, 32, 1087, 1088, 1086, 1077, 1082, 1090], \<comment> \<open>oplata za proekt\<close>
        [1079, 1072, 32, 1087, 1086, 1089, 1083, 1091, 1075, 1080], \<comment> \<open>za posluhy\<close>
        [1079, 1072, 32, 1088, 1086, 1073, 1086, 1090, 1091], \<comment> \<open>za robotu\<close>
        [1074, 1080, 1085, 1072, 1075, 1086, 1088, 1086, 1076, 1072] \<comment> \<open>vynahoroda\<close>],
       c_Frilans, Income),
      ([[1085, 1072, 1076, 1093, 1086, 1076, 1078, 1077, 1085, 1085, 1103], \<comment> \<open>nadkhodzhennya\<close>
        [1085, 1072, 1088, 1072, 1093, 1091, 1074, 1072, 1085, 1085, 1103], \<comment> \<open>narakhuvannya\<close>
        [1079, 1072, 1088, 1072, 1093, 1091, 1074, 1072, 1085, 1085, 1103], \<comment> \<open>zarakhuvannya\<close>
        [1074, 1110, 1076, 32, 1092, 1110, 1079, 1080, 1095, 1085, 1086, 1111], \<comment> \<open>vid fizychnoyi\<close>
        [1074, 1110, 1076, 32, 1092, 1086, 1087], \<comment> \<open>vid fop\<close>
        [1087, 1086, 1074, 1077, 1088, 1085, 1077, 1085, 1085, 1103, 32, 1082, 1086, 1096, 1090, 1110, 1074], \<comment> \<open>povernennya koshtiv\<close>
        [1074, 1110, 1076, 1096, 1082, 1086, 1076, 1091, 1074, 1072, 1085, 1085, 1103] \<comment> \<open>vidshkoduvannya\<close>],
       c_Inshyj_dokhid, Income),
      ([[1087, 1086, 1076, 1072, 1088, 1091, 1085, 1086, 1082], \<comment> \<open>podarunok\<close>
        asc ''gift'',
        [1074, 1110, 1076, 32, 1084, 1072, 1084, 1080], \<comment> \<open>vid mamy\<close>
        [1074, 1110, 1076, 32, 1090, 1072, 1090, 1072], \<comment> \<open>vid tata\<close>
        [1074, 1110, 1076, 32, 1073, 1072, 1090, 1100, 1082, 1110, 1074] \<comment> \<open>vid bat'kiv\<close>],
       c_Podarunok, Income),
      ([[1087, 1086, 1087, 1086, 1074, 1085, 1077, 1085, 1085, 1103, 32, 1079, 32, 1082, 1072, 1088, 1090, 1082, 1080], \<comment> \<open>popovnennya z kartky\<close>
        asc ''card2card'',
        asc ''p2p'',
        [1087, 1077, 1088, 1077, 1082, 1072, 1079, 32, 1074, 1110, 1076], \<comment> \<open>perekaz vid\<close>
        [1074, 1110, 1076, 58] \<comment> \<open>vid:\<close>],
       c_Perekaz_inshe, Transfer),
      ([[1074, 1110, 1076, 1082, 1083, 1072, 1076, 1072, 1085, 1085, 1103], \<comment> \<open>vidkladannya\<close>
        [1085, 1072, 32, 1073, 1072, 1085, 1082, 1091], \<comment> \<open>na banku\<close>
        [1085, 1072, 1082, 1086, 1087, 1080, 1095, 1077, 1085, 1085, 1103], \<comment> \<open>nakopychennya\<close>
        [1079, 1072, 1086, 1097, 1072, 1076, 1078, 1077, 1085, 1085, 1103], \<comment> \<open>zaoshchadzhennya\<close>
        [1076, 1086, 32, 1073, 1072, 1085, 1082, 1080], \<comment> \<open>do banky\<close>
        [1085, 1072, 32, 1076, 1077, 1087, 1086, 1079, 1080, 1090], \<comment> \<open>na depozyt\<close>
        [1076, 1077, 1087, 1086, 1079, 1080, 1090], \<comment> \<open>depozyt\<close>
        asc ''pension'',
        [1087, 1077, 1085, 1089, 1110, 1103] \<comment> \<open>pensiya\<close>],
       c_Investytsiyi_Skarbnychka, Transfer),
      ([[1086, 1073, 1084, 1110, 1085, 32, 1074, 1072, 1083, 1102, 1090], \<comment> \<open>obmin valyut\<close>
        asc ''currency'',
        asc ''exchange'',
        [1082, 1086, 1085, 1074, 1077, 1088, 1089, 1110, 1103], \<comment> \<open>konversiya\<close>
        [1087, 1088, 1086, 1076, 1072, 1078, 32, 1074, 1072, 1083, 1102, 1090, 1080], \<comment> \<open>prodazh valyuty\<close>
        [1082, 1091, 1087, 1110, 1074, 1083, 1103, 32, 1074, 1072, 1083, 1102, 1090, 1080], \<comment> \<open>kupivlya valyuty\<close>
        asc ''usd sell'',
        asc ''eur buy''],
       c_Obmin_valyut, Transfer),
      ([[1072, 1087, 1090, 1077, 1082, 1072], \<comment> \<open>apteka\<close>
        asc ''pharmacy'',
        asc ''farmacy'',
        [1083, 1110, 1082, 1080], \<comment> \<open>liky\<close>
        [1083, 1110, 1082, 1072, 1088, 1085, 1103], \<comment> \<open>likarnya\<close>
        [1082, 1083, 1110, 1085, 1110, 1082, 1072], \<comment> \<open>klinika\<close>
        asc ''clinic'',
        [1083, 1110, 1082, 1072, 1088], \<comment> \<open>likar\<close>
        asc ''doctor'',
        asc ''medis'',
        [1084, 1077, 1076, 1110, 1083, 1072, 1081, 1092] \<comment> \<open>medilajf\<close>],
       c_Liky_Likari, Expense),
      ([asc ''gym'',
        [1089, 1087, 1086, 1088, 1090, 1079, 1072, 1083], \<comment> \<open>sportzal\<close>
        [1092, 1110, 1090, 1085, 1077, 1089], \<comment> \<open>fitnes\<close>
        asc ''fitness'',
        asc ''sport club'',
        asc ''SportLife'',
        [1073, 1072, 1089, 1077, 1081, 1085], \<comment> \<open>basejn\<close>
        [1090, 1088, 1077, 1085, 1072, 1078, 1077, 1088] \<comment> \<open>trenazher\<close>],
       c_Sportzal, Expense),
      ([[1087, 1077, 1088, 1091, 1082, 1072, 1088], \<comment> \<open>perukar\<close>
        asc ''barber'',
        [1082, 1086, 1089, 1084, 1077, 1090, 1080, 1082, 1072], \<comment> \<open>kosmetyka\<close>
        asc ''salon'',
        [1084, 1072, 1085, 1110, 1082, 1102, 1088], \<comment> \<open>manikyur\<close>
        [1087, 1077, 1076, 1080, 1082, 1102, 1088], \<comment> \<open>pedykyur\<close>
        [1082, 1088, 1072, 1089, 1072], \<comment> \<open>krasa\<close>
        asc ''beauty''],
       c_Byuti, Expense),
      ([asc ''zara'',
        asc ''h&m'',
        asc ''bershka'',
        asc ''reserved'',
        asc ''lcwaikiki'',
        asc ''pull&bear'',
        asc ''mango'',
        asc ''adidas'',
        asc ''nike'',
        asc ''puma'',
        [1086, 1076, 1103, 1075], \<comment> \<open>odyah\<close>
        [1074, 1079, 1091, 1090, 1090, 1103], \<comment> \<open>vzuttya\<close>
        asc ''shoes'',
        asc ''shafa'',
        asc ''lamoda''],
       c_Odyah_Vzuttya, Expense),
      ([[1082, 1110, 1085, 1086], \<comment> \<open>kino\<close>
        asc ''cinema'',
        asc ''multiplex'',
        [1087, 1083, 1072, 1085, 1077, 1090, 1072, 1088, 1110, 1081], \<comment> \<open>planetarij\<close>
        [1090, 1077, 1072, 1090, 1088], \<comment> \<open>teatr\<close>
        asc ''concert'',
        [1082, 1086, 1085, 1094, 1077, 1088, 1090], \<comment> \<open>kontsert\<close>
        [1082, 1074, 1080, 1090, 1086, 1082], \<comment> \<open>kvytok\<close>
        asc ''ticket'',
        asc ''eventbrite'',
        asc ''karabas''],
       c_Podiyi_Khobi, Expense),
      ([[1079, 1089, 1091], \<comment> \<open>zsu\<close>
        asc ''prytula'',
        [1073, 1083, 1072, 1075, 1086, 1076, 1110, 1081, 1085], \<comment> \<open>blahodijn\<close>
        asc ''charity'',
        asc ''volunteer'',
        [1074, 1086, 1083, 1086, 1085, 1090, 1077, 1088], \<comment> \<open>volonter\<close>
        [1076, 1086, 1085, 1072, 1090], \<comment> \<open>donat\<close>
        asc ''donat'',
        asc ''ukraine now'',
        [1087, 1086, 1074, 1085, 1072, 32, 1095, 1072, 1096, 1072], \<comment> \<open>povna chasha\<close>
        asc ''army''],
       c_ZSU_Volontery, Expense),
      ([[1082, 1086, 1084, 1110, 1089, 1110, 1103, 32, 1073, 1072, 1085, 1082, 1091], \<comment> \<open>komisiya banku\<close>
        [1082, 1086, 1084, 1110, 1089, 1110, 1103, 32, 1079, 1072], \<comment> \<open>komisiya za\<close>
        asc ''bank fee'',
        [1087, 1083, 1072, 1090, 1072, 32, 1079, 1072, 32, 1086, 1073, 1089, 1083, 1091, 1075, 1086, 1074, 1091, 1074, 1072, 1085, 1085, 1103], \<comment> \<open>plata za obsluhovuvannya\<close>
        [1086, 1073, 1089, 1083, 1091, 1075, 1086, 1074, 1091, 1074, 1072, 1085, 1085, 1103, 32, 1088, 1072, 1093, 1091, 1085, 1082, 1091], \<comment> \<open>obsluhovuvannya rakhunku\<close>
        [1089, 1084, 1089, 32, 1110, 1085, 1092, 1086, 1088, 1084, 1091, 1074, 1072, 1085, 1085, 1103] \<comment> \<open>sms informuvannya\<close>],
       c_Komisiyi_bankiv, Expense)]"

subsection \<open>Bank detection\<close>

text \<open>\<^verbatim>\<open>detect_bank\<close>. \<open>h_lower\<close> is the set of normalised headers.\<close>

definition detect_bank :: "ustr list \<Rightarrow> bank" where
  "detect_bank headers =
     (let h_lower = set (map (\<lambda>h. strip (lower h)) headers) in
      if asc ''mcc'' \<in> h_lower \<and> (\<exists>h\<in>h_lower. contains h [1076, 1077, 1090, 1072, 1083, 1110, 32, 1086, 1087, 1077, 1088, 1072, 1094, 1110, 1111] \<comment> \<open>detali operatsiyi\<close>)
      then MONO
      else if (\<exists>h\<in>h_lower. contains h [1076, 1072, 1090, 1072, 32, 1110, 32, 1095, 1072, 1089, 32, 1086, 1087, 1077, 1088, 1072, 1094, 1110, 1111] \<comment> \<open>data i chas operatsiyi\<close>)
      then MONO
      else if (\<exists>h\<in>h_lower. contains h [1076, 1072, 1090, 1072, 32, 1110, 32, 1095, 1072, 1089] \<comment> \<open>data i chas\<close>)
            \<and> (\<exists>h\<in>h_lower. contains h [1086, 1087, 1080, 1089, 32, 1086, 1087, 1077, 1088, 1072, 1094, 1110, 1111] \<comment> \<open>opys operatsiyi\<close>)
      then PRIVAT
      else if (\<exists>h\<in>h_lower. contains h [1076, 1077, 1090, 1072, 1083, 1110, 32, 1086, 1087, 1077, 1088, 1072, 1094, 1110, 1111] \<comment> \<open>detali operatsiyi\<close>)
            \<and> [1082, 1072, 1090, 1077, 1075, 1086, 1088, 1110, 1103] \<comment> \<open>katehoriya\<close>
               \<in> h_lower
      then PRIVAT
      else if (\<exists>h\<in>h_lower. contains h [1087, 1088, 1080, 1079, 1085, 1072, 1095, 1077, 1085, 1085, 1103, 32, 1087, 1083, 1072, 1090, 1077, 1078, 1091] \<comment> \<open>pryznachennya platezhu\<close>)
            \<and> ((\<exists>h\<in>h_lower. contains h [1076, 1077, 1073, 1077, 1090] \<comment> \<open>debet\<close>)
               \<or> (\<exists>h\<in>h_lower. contains h [1082, 1088, 1077, 1076, 1080, 1090] \<comment> \<open>kredyt\<close>))
      then OSCHADBANK
      else if (\<exists>h\<in>h_lower. contains h [1087, 1088, 1080, 1079, 1085, 1072, 1095, 1077, 1085, 1085, 1103, 32, 1087, 1083, 1072, 1090, 1077, 1078, 1091] \<comment> \<open>pryznachennya platezhu\<close>)
      then OSCHADBANK
      else if (\<exists>h\<in>h_lower. contains h (asc ''operation date''))
      then RAIFFEISEN
      else if (\<exists>h\<in>h_lower. contains h (asc ''document amount'') \<or> contains h [1086, 1087, 1077, 1088, 1072, 1094, 1110, 1103] \<comment> \<open>operatsiya\<close>)
            \<and> asc ''amount'' \<in> h_lower
      then RAIFFEISEN
      else if (\<exists>h\<in>h_lower. contains h [1076, 1072, 1090, 1072, 32, 1076, 1086, 1082, 1091, 1084, 1077, 1085, 1090, 1091] \<comment> \<open>data dokumentu\<close>)
            \<and> (\<exists>h\<in>h_lower. contains h [1087, 1088, 1080, 1079, 1085, 1072, 1095, 1077, 1085, 1085, 1103] \<comment> \<open>pryznachennya\<close>)
      then PUMB
      else if (\<exists>h\<in>h_lower. contains h [1087, 1091, 1084, 1073] \<comment> \<open>pumb\<close> \<or> contains h (asc ''pumb''))
      then PUMB
      else if (\<exists>h\<in>h_lower. contains h [1087, 1088, 1080, 1093, 1110, 1076] \<comment> \<open>prykhid\<close>)
            \<or> (\<exists>h\<in>h_lower. contains h [1074, 1080, 1090, 1088, 1072, 1090, 1080] \<comment> \<open>vytraty\<close>)
      then ABANK
      else if (\<exists>h\<in>h_lower. contains h (asc ''abank'') \<or> contains h [1072, 45, 1073, 1072, 1085, 1082] \<comment> \<open>a-bank\<close>)
      then ABANK
      else GENERIC)"

text \<open>
  The detector as the specification words it: an ordered list of signature rules, each
  a test on the normalised headers with the bank it names; the first rule that matches
  decides, and the generic identifier is the answer when none does.
\<close>

definition signature_rules :: "((ustr set \<Rightarrow> bool) \<times> bank) list" where
  "signature_rules =
     [(\<lambda>H. asc ''mcc'' \<in> H \<and> (\<exists>h\<in>H. contains h [1076, 1077, 1090, 1072, 1083, 1110, 32, 1086, 1087, 1077, 1088, 1072, 1094, 1110, 1111] \<comment> \<open>detali operatsiyi\<close>),
       MONO),
      (\<lambda>H. \<exists>h\<in>H. contains h [1076, 1072, 1090, 1072, 32, 1110, 32, 1095, 1072, 1089, 32, 1086, 1087, 1077, 1088, 1072, 1094, 1110, 1111] \<comment> \<open>data i chas operatsiyi\<close>,
       MONO),
      (\<lambda>H. (\<exists>h\<in>H. contains h [1076, 1072, 1090, 1072, 32, 1110, 32, 1095, 1072, 1089] \<comment> \<open>data i chas\<close>)
            \<and> (\<exists>h\<in>H. contains h [1086, 1087, 1080, 1089, 32, 1086, 1087, 1077, 1088, 1072, 1094, 1110, 1111] \<comment> \<open>opys operatsiyi\<close>),
       PRIVAT),
      (\<lambda>H. (\<exists>h\<in>H. contains h [1076, 1077, 1090, 1072, 1083, 1110, 32, 1086, 1087, 1077, 1088, 1072, 1094, 1110, 1111] \<comment> \<open>detali operatsiyi\<close>)
            \<and> [1082, 1072, 1090, 1077, 1075, 1086, 1088, 1110, 1103] \<comment> \<open>katehoriya\<close>
               \<in> H,
       PRIVAT),
      (\<lambda>H. (\<exists>h\<in>H. contains h [1087, 1088, 1080, 1079, 1085, 1072, 1095, 1077, 1085, 1085, 1103, 32, 1087, 1083, 1072, 1090, 1077, 1078, 1091] \<comment> \<open>pryznachennya platezhu\<close>)
            \<and> ((\<exists>h\<in>H. contains h [1076, 1077, 1073, 1077, 1090] \<comment> \<open>debet\<close>)
               \<or> (\<exists>h\<in>H. contains h [1082, 1088, 1077, 1076, 1080, 1090] \<comment> \<open>kredyt\<close>)),
       OSCHADBANK),
      (\<lambda>H. \<exists>h\<in>H. contains h [1087, 1088, 1080, 1079, 1085, 1072, 1095, 1077, 1085, 1085, 1103, 32, 1087, 1083, 1072, 1090, 1077, 1078, 1091] \<comment> \<open>pryznachennya platezhu\<close>,
       OSCHADBANK),
      (\<lambda>H. \<exists>h\<in>H. contains h (asc ''operation date''),
       RAIFFEISEN),
      (\<lambda>H. (\<exists>h\<in>H. contains h (asc ''document amount'') \<or> contains h [1086, 1087, 1077, 1088, 1072, 1094, 1110, 1103] \<comment> \<open>operatsiya\<close>)
            \<and> asc ''amount'' \<in> H,
       RAIFFEISEN),
      (\<lambda>H. (\<exists>h\<in>H. contains h [1076, 1072, 1090, 1072, 32, 1076, 1086, 1082, 1091, 1084, 1077, 1085, 1090, 1091] \<comment> \<open>data dokumentu\<close>)
            \<and> (\<exists>h\<in>H. contains h [1087, 1088, 1080, 1079, 1085, 1072, 1095, 1077, 1085, 1085, 1103] \<comment> \<open>pryznachennya\<close>),
       PUMB),
      (\<lambda>H. \<exists>h\<in>H. contains h [1087, 1091, 1084, 1073] \<comment> \<open>pumb\<close> \<or> contains h (asc ''pumb''),
       PUMB),
      (\<lambda>H. (\<exists>h\<in>H. contains h [1087, 1088, 1080, 1093, 1110, 1076] \<comment> \<open>prykhid\<close>)
            \<or> (\<exists>h\<in>H. contains h [1074, 1080, 1090, 1088, 1072, 1090, 1080] \<comment> \<open>vytraty\<close>),
       ABANK),
      (\<lambda>H. \<exists>h\<in>H. contains h (asc ''abank'') \<or> contains h [1072, 45, 1073, 1072, 1085, 1082] \<comment> \<open>a-bank\<close>,
       ABANK)]"

fun first_match :: "((ustr set \<Rightarrow> bool) \<times> bank) list \<Rightarrow> ustr set \<Rightarrow> bank" where
  "first_match [] H = GENERIC"
| "first_match ((test, b) # rules) H = (if test H then b else first_match rules H)"

subsection \<open>Row parsers of the banks\<close>

text \<open>\<^verbatim>\<open>x and x > 0\<close> for an optional float \<open>x\<close>.\<close>

definition truthy_positive :: "pyfloat option \<Rightarrow> bool" where
  "truthy_positive x =
     (case x of None \<Rightarrow> False | Some v \<Rightarrow> fl_truthy v \<and> fl_gt v (Fin 0))"

definition parse_row_mono :: "'d clock \<Rightarrow> csv_row \<Rightarrow> 'd raw_row option" where
  "parse_row_mono ck row =
     (let date_raw = get row [[1044, 1072, 1090, 1072, 32, 1110, 32, 1095, 1072, 1089, 32, 1086, 1087, 1077, 1088, 1072, 1094, 1110, 1111] \<comment> \<open>Data i chas operatsiyi\<close>, (asc ''date'')];
          amount_raw = get row [[1057, 1091, 1084, 1072] \<comment> \<open>Suma\<close>, [1057, 1091, 1084, 1072, 32, 1091, 32, 1074, 1072, 1083, 1102, 1090, 1110, 32, 1088, 1072, 1093, 1091, 1085, 1082, 1091] \<comment> \<open>Suma u valyuti rakhunku\<close>,
                                [1057, 1091, 1084, 1072, 32, 40, 1091, 32, 1074, 1072, 1083, 1102, 1090, 1110, 32, 1088, 1072, 1093, 1091, 1085, 1082, 1091, 41] \<comment> \<open>Suma (u valyuti rakhunku)\<close>, (asc ''amount'')];
          desc_raw = get row [[1044, 1077, 1090, 1072, 1083, 1110, 32, 1086, 1087, 1077, 1088, 1072, 1094, 1110, 1111] \<comment> \<open>Detali operatsiyi\<close>, [1054, 1087, 1080, 1089] \<comment> \<open>Opys\<close>, (asc ''description'')];
          mcc_raw = get row [(asc ''MCC''), (asc ''Mcc''), (asc ''mcc'')]
      in case parse_amount amount_raw of
           None \<Rightarrow> None
         | Some a \<Rightarrow>
             Some \<lparr>r_date = date_or_now ck date_raw, r_amount = a,
                   r_description = desc_raw, r_mcc = mcc_raw\<rparr>)"

definition parse_row_privat :: "'d clock \<Rightarrow> csv_row \<Rightarrow> 'd raw_row option" where
  "parse_row_privat ck row =
     (let date_raw0 = get row [[1044, 1072, 1090, 1072, 32, 1110, 32, 1095, 1072, 1089] \<comment> \<open>Data i chas\<close>, [1044, 1072, 1090, 1072] \<comment> \<open>Data\<close>, (asc ''Date'')];
          time_raw = get row [[1063, 1072, 1089] \<comment> \<open>Chas\<close>, (asc ''Time'')];
          date_raw = (if time_raw \<noteq> [] \<and> \<not> contains date_raw0 [32]
                      then date_raw0 @ [32] @ time_raw else date_raw0);
          amount_raw = get row [[1057, 1091, 1084, 1072, 32, 1074, 32, 1075, 1088, 1080, 1074, 1085, 1110] \<comment> \<open>Suma v hryvni\<close>, [1057, 1091, 1084, 1072] \<comment> \<open>Suma\<close>, (asc ''Amount''), [1057, 1091, 1084, 1072, 32, 1091, 32, 1074, 1072, 1083, 1102, 1090, 1110] \<comment> \<open>Suma u valyuti\<close>];
          desc_raw = get row [[1054, 1087, 1080, 1089, 32, 1086, 1087, 1077, 1088, 1072, 1094, 1110, 1111] \<comment> \<open>Opys operatsiyi\<close>, [1044, 1077, 1090, 1072, 1083, 1110, 32, 1086, 1087, 1077, 1088, 1072, 1094, 1110, 1111] \<comment> \<open>Detali operatsiyi\<close>, [1044, 1077, 1090, 1072, 1083, 1110] \<comment> \<open>Detali\<close>,
                              [1055, 1088, 1080, 1079, 1085, 1072, 1095, 1077, 1085, 1085, 1103] \<comment> \<open>Pryznachennya\<close>, (asc ''Description'')];
          mcc_raw = get row [(asc ''MCC''), (asc ''Mcc'')]
      in case parse_amount amount_raw of
           None \<Rightarrow> None
         | Some a \<Rightarrow>
             Some \<lparr>r_date = date_or_now ck date_raw, r_amount = a,
                   r_description = desc_raw, r_mcc = mcc_raw\<rparr>)"

definition parse_row_oschadbank :: "'d clock \<Rightarrow> csv_row \<Rightarrow> 'd raw_row option" where
  "parse_row_oschadbank ck row =
     (let date_raw = get row [[1044, 1072, 1090, 1072, 32, 1086, 1087, 1077, 1088, 1072, 1094, 1110, 1111] \<comment> \<open>Data operatsiyi\<close>, [1044, 1072, 1090, 1072, 32, 1087, 1088, 1086, 1074, 1077, 1076, 1077, 1085, 1085, 1103] \<comment> \<open>Data provedennya\<close>, [1044, 1072, 1090, 1072] \<comment> \<open>Data\<close>, (asc ''Date'')];
          debit_raw = get row [[1044, 1077, 1073, 1077, 1090] \<comment> \<open>Debet\<close>, [1057, 1091, 1084, 1072, 32, 1076, 1077, 1073, 1077, 1090, 1091] \<comment> \<open>Suma debetu\<close>, (asc ''Debit'')];
          credit_raw = get row [[1050, 1088, 1077, 1076, 1080, 1090] \<comment> \<open>Kredyt\<close>, [1057, 1091, 1084, 1072, 32, 1082, 1088, 1077, 1076, 1080, 1090, 1091] \<comment> \<open>Suma kredytu\<close>, (asc ''Credit'')];
          desc_raw = get row [[1055, 1088, 1080, 1079, 1085, 1072, 1095, 1077, 1085, 1085, 1103, 32, 1087, 1083, 1072, 1090, 1077, 1078, 1091] \<comment> \<open>Pryznachennya platezhu\<close>, [1055, 1088, 1080, 1079, 1085, 1072, 1095, 1077, 1085, 1085, 1103] \<comment> \<open>Pryznachennya\<close>,
                              [1053, 1072, 1081, 1084, 1077, 1085, 1091, 1074, 1072, 1085, 1085, 1103, 32, 1082, 1086, 1085, 1090, 1088, 1072, 1075, 1077, 1085, 1090, 1072] \<comment> \<open>Najmenuvannya kontrahenta\<close>, [1044, 1077, 1090, 1072, 1083, 1110] \<comment> \<open>Detali\<close>];
          debit = parse_amount debit_raw;
          credit = parse_amount credit_raw
      in if truthy_positive debit then
           Some \<lparr>r_date = date_or_now ck date_raw, r_amount = fl_neg (the debit),
                 r_description = desc_raw, r_mcc = []\<rparr>
         else if truthy_positive credit then
           Some \<lparr>r_date = date_or_now ck date_raw, r_amount = the credit,
                 r_description = desc_raw, r_mcc = []\<rparr>
         else None)"

definition parse_row_raiffeisen :: "'d clock \<Rightarrow> csv_row \<Rightarrow> 'd raw_row option" where
  "parse_row_raiffeisen ck row =
     (let date_raw = get row [(asc ''OPERATION DATE''), (asc ''Operation Date''), [1044, 1072, 1090, 1072, 32, 1086, 1087, 1077, 1088, 1072, 1094, 1110, 1111] \<comment> \<open>Data operatsiyi\<close>, (asc ''Date'')];
          amount_raw = get row [(asc ''DOCUMENT AMOUNT''), (asc ''Document Amount''), (asc ''Amount''), [1057, 1091, 1084, 1072] \<comment> \<open>Suma\<close>,
                                [1057, 1091, 1084, 1072, 32, 1086, 1087, 1077, 1088, 1072, 1094, 1110, 1111] \<comment> \<open>Suma operatsiyi\<close>];
          desc_raw = get row [(asc ''TRANSACTION DESCRIPTION''), (asc ''Transaction Description''),
                              [1055, 1088, 1080, 1079, 1085, 1072, 1095, 1077, 1085, 1085, 1103] \<comment> \<open>Pryznachennya\<close>, (asc ''Description''), [1044, 1077, 1090, 1072, 1083, 1110] \<comment> \<open>Detali\<close>];
          dc_flag = get row [(asc ''DEBIT/CREDIT''), (asc ''D/C''), [1058, 1080, 1087, 32, 1086, 1087, 1077, 1088, 1072, 1094, 1110, 1111] \<comment> \<open>Typ operatsiyi\<close>, (asc ''Type'')]
      in case parse_amount amount_raw of
           None \<Rightarrow> None
         | Some a \<Rightarrow>
             Some \<lparr>r_date = date_or_now ck date_raw,
                   r_amount = (if startswith (upper dc_flag) (asc ''D'') then fl_neg (fl_abs a)
                             else if startswith (upper dc_flag) (asc ''C'') then fl_abs a
                             else a),
                   r_description = desc_raw, r_mcc = []\<rparr>)"

definition parse_row_pumb :: "'d clock \<Rightarrow> csv_row \<Rightarrow> 'd raw_row option" where
  "parse_row_pumb ck row =
     (let date_raw = get row [[1044, 1072, 1090, 1072, 32, 1076, 1086, 1082, 1091, 1084, 1077, 1085, 1090, 1091] \<comment> \<open>Data dokumentu\<close>, [1044, 1072, 1090, 1072, 32, 1086, 1087, 1077, 1088, 1072, 1094, 1110, 1111] \<comment> \<open>Data operatsiyi\<close>, [1044, 1072, 1090, 1072] \<comment> \<open>Data\<close>, (asc ''Date'')];
          debit_raw = get row [[1044, 1077, 1073, 1077, 1090] \<comment> \<open>Debet\<close>, [1057, 1091, 1084, 1072, 32, 1076, 1077, 1073, 1077, 1090, 1091] \<comment> \<open>Suma debetu\<close>, (asc ''Debit''), [1042, 1080, 1090, 1088, 1072, 1090, 1080] \<comment> \<open>Vytraty\<close>];
          credit_raw = get row [[1050, 1088, 1077, 1076, 1080, 1090] \<comment> \<open>Kredyt\<close>, [1057, 1091, 1084, 1072, 32, 1082, 1088, 1077, 1076, 1080, 1090, 1091] \<comment> \<open>Suma kredytu\<close>, (asc ''Credit''), [1053, 1072, 1076, 1093, 1086, 1076, 1078, 1077, 1085, 1085, 1103] \<comment> \<open>Nadkhodzhennya\<close>];
          desc_raw = get row [[1055, 1088, 1080, 1079, 1085, 1072, 1095, 1077, 1085, 1085, 1103] \<comment> \<open>Pryznachennya\<close>, [1055, 1088, 1080, 1079, 1085, 1072, 1095, 1077, 1085, 1085, 1103, 32, 1087, 1083, 1072, 1090, 1077, 1078, 1091] \<comment> \<open>Pryznachennya platezhu\<close>,
                              [1053, 1072, 1081, 1084, 1077, 1085, 1091, 1074, 1072, 1085, 1085, 1103, 32, 1082, 1086, 1085, 1090, 1088, 1072, 1075, 1077, 1085, 1090, 1072] \<comment> \<open>Najmenuvannya kontrahenta\<close>, [1054, 1087, 1080, 1089] \<comment> \<open>Opys\<close>, (asc ''Description'')];
          debit = parse_amount debit_raw;
          credit = parse_amount credit_raw
      in if truthy_positive debit then
           Some \<lparr>r_date = date_or_now ck date_raw, r_amount = fl_neg (the debit),
                 r_description = desc_raw, r_mcc = []\<rparr>
         else if truthy_positive credit then
           Some \<lparr>r_date = date_or_now ck date_raw, r_amount = the credit,
                 r_description = desc_raw, r_mcc = []\<rparr>
         else None)"

definition parse_row_abank :: "'d clock \<Rightarrow> csv_row \<Rightarrow> 'd raw_row option" where
  "parse_row_abank ck row =
     (let date_raw = get row [[1044, 1072, 1090, 1072] \<comment> \<open>Data\<close>, [1044, 1072, 1090, 1072, 32, 1086, 1087, 1077, 1088, 1072, 1094, 1110, 1111] \<comment> \<open>Data operatsiyi\<close>, [1044, 1072, 1090, 1072, 32, 1110, 32, 1095, 1072, 1089] \<comment> \<open>Data i chas\<close>, (asc ''Date'')];
          income_raw = get row [[1055, 1088, 1080, 1093, 1110, 1076] \<comment> \<open>Prykhid\<close>, [1053, 1072, 1076, 1093, 1086, 1076, 1078, 1077, 1085, 1085, 1103] \<comment> \<open>Nadkhodzhennya\<close>, (asc ''Income''), [1047, 1072, 1088, 1072, 1093, 1091, 1074, 1072, 1085, 1085, 1103] \<comment> \<open>Zarakhuvannya\<close>];
          expense_raw = get row [[1042, 1080, 1090, 1088, 1072, 1090, 1080] \<comment> \<open>Vytraty\<close>, [1042, 1080, 1090, 1088, 1072, 1090, 1072] \<comment> \<open>Vytrata\<close>, [1057, 1087, 1080, 1089, 1072, 1085, 1085, 1103] \<comment> \<open>Spysannya\<close>, (asc ''Expense'')];
          desc_raw = get row [[1054, 1087, 1080, 1089] \<comment> \<open>Opys\<close>, [1044, 1077, 1090, 1072, 1083, 1110] \<comment> \<open>Detali\<close>, [1055, 1088, 1080, 1079, 1085, 1072, 1095, 1077, 1085, 1085, 1103] \<comment> \<open>Pryznachennya\<close>, (asc ''Description''),
                              [1053, 1072, 1081, 1084, 1077, 1085, 1091, 1074, 1072, 1085, 1085, 1103] \<comment> \<open>Najmenuvannya\<close>];
          income = parse_amount income_raw;
          expense = parse_amount expense_raw
      in if truthy_positive income then
           Some \<lparr>r_date = date_or_now ck date_raw, r_amount = the income,
                 r_description = desc_raw, r_mcc = []\<rparr>
         else if truthy_positive expense then
           Some \<lparr>r_date = date_or_now ck date_raw, r_amount = fl_neg (the expense),
                 r_description = desc_raw, r_mcc = []\<rparr>
         else None)"

text \<open>
  \<^verbatim>\<open>parse_row_generic\<close>: one pass over the columns; the state is what has been found so
  far of (date, amount, description, mcc). A missing cell parses to no date and no
  amount, and is the empty string as a text.
\<close>

fun generic_scan ::
  "'d clock \<Rightarrow> csv_row \<Rightarrow> 'd option \<times> pyfloat option \<times> ustr \<times> ustr
     \<Rightarrow> 'd option \<times> pyfloat option \<times> ustr \<times> ustr" where
  "generic_scan ck [] st = st"
| "generic_scan ck ((k, v) # row) (date, amount, desc, mcc) =
     (let k_lower = lower k;
          date' = (if date = None
                      \<and> list_ex (contains k_lower) [(asc ''date''), [1076, 1072, 1090, 1072] \<comment> \<open>data\<close>]
                   then (case v of None \<Rightarrow> None | Some s \<Rightarrow> parse_date ck s) else date);
          amount' = (if amount = None
                        \<and> list_ex (contains k_lower) [(asc ''amount''), [1089, 1091, 1084, 1072] \<comment> \<open>suma\<close>, (asc ''sum'')]
                     then (case v of None \<Rightarrow> None | Some s \<Rightarrow> parse_amount s) else amount);
          desc' = (if desc = []
                      \<and> list_ex (contains k_lower)
                           [(asc ''desc''), [1086, 1087, 1080, 1089] \<comment> \<open>opys\<close>, (asc ''detail''), (asc ''reference''), (asc ''note''),
                            [1087, 1088, 1080, 1079, 1085, 1072, 1095, 1077, 1085, 1085, 1103] \<comment> \<open>pryznachennya\<close>, [1076, 1077, 1090, 1072, 1083, 1110] \<comment> \<open>detali\<close>]
                   then strip (or_empty v) else desc);
          mcc' = (if mcc = [] \<and> contains k_lower (asc ''mcc'')
                  then strip (or_empty v) else mcc)
      in generic_scan ck row (date', amount', desc', mcc'))"

definition parse_row_generic :: "'d clock \<Rightarrow> csv_row \<Rightarrow> 'd raw_row option" where
  "parse_row_generic ck row =
     (case generic_scan ck row (None, None, [], []) of
        (date, amount, desc, mcc) \<Rightarrow>
          (case amount of
             None \<Rightarrow> None
           | Some a \<Rightarrow>
               Some \<lparr>r_date = (case date of Some d \<Rightarrow> d | None \<Rightarrow> now ck), r_amount = a,
                     r_description = desc, r_mcc = mcc\<rparr>))"

subsection \<open>The categorizer\<close>

text \<open>\<^verbatim>\<open>categorize\<close>: the MCC layer, then the keyword rules in order, then the fallback.
  The loop over the rules is \<open>categorize_rules\<close>.\<close>

fun categorize_rules ::
  "(ustr list \<times> ustr \<times> flow) list \<Rightarrow> ustr \<Rightarrow> ustr \<times> flow \<times> bool" where
  "categorize_rules [] desc_lower = (c_Inshe, Expense, False)"
| "categorize_rules ((keywords, cat_name, tx_type) # rules) desc_lower =
     (if list_ex (contains desc_lower) keywords
      then (cat_name, tx_type,
            list_ex (contains desc_lower)
              [[1087, 1086, 1074, 1077, 1088, 1085, 1077, 1085, 1085, 1103, 32, 1073, 1086, 1088, 1075, 1091] \<comment> \<open>povernennya borhu\<close>, [1087, 1086, 1076, 1110, 1083] \<comment> \<open>podil\<close>, (asc ''split check'')])
      else categorize_rules rules desc_lower)"

definition categorize :: "ustr \<Rightarrow> ustr \<Rightarrow> ustr \<times> flow \<times> bool" where
  "categorize description mcc =
     (if mcc \<noteq> [] \<and> map_of MCC_TO_CATEGORY (strip mcc) \<noteq> None
      then (case the (map_of MCC_TO_CATEGORY (strip mcc)) of
              (cat_name, tx_type) \<Rightarrow> (cat_name, tx_type, False))
      else categorize_rules KEYWORD_RULES (lower description))"

subsection \<open>Category resolution\<close>

text \<open>One entry of the user's category catalogue, as the repository selects it
  (\<^verbatim>\<open>id, name, type\<close>); \<open>flow_name\<close> is the text of a type in the catalogue.\<close>

record category =
  entry_id :: ustr
  entry_name :: ustr
  entry_type :: ustr

definition flow_name :: "flow \<Rightarrow> ustr" where
  "flow_name t =
     (case t of Expense \<Rightarrow> asc ''expense'' | Income \<Rightarrow> asc ''income''
      | Transfer \<Rightarrow> asc ''transfer'')"

text \<open>The third stage of \<^verbatim>\<open>find_category_id\<close>: the entry with the highest token
  overlap, the first one on a tie.\<close>

fun best_overlap ::
  "ustr set \<Rightarrow> category list \<Rightarrow> ustr option \<times> nat \<Rightarrow> ustr option \<times> nat" where
  "best_overlap q_tokens [] best = best"
| "best_overlap q_tokens (cat # cats) (best_id, best_score) =
     (let db_tokens = set (split (replace1 47 [32] (lower (entry_name cat))));
          score = card (q_tokens \<inter> db_tokens)
      in if best_score < score then best_overlap q_tokens cats (Some (entry_id cat), score)
         else best_overlap q_tokens cats (best_id, best_score))"

definition find_category_id :: "category list \<Rightarrow> ustr \<Rightarrow> flow \<Rightarrow> ustr option" where
  "find_category_id categories name tx_type =
     (let name_q = strip (lower name);
          same_type = filter (\<lambda>c. entry_type c = flow_name tx_type) categories
      in case find (\<lambda>cat. strip (lower (entry_name cat)) = name_q) same_type of
           Some cat \<Rightarrow> Some (entry_id cat)
         | None \<Rightarrow>
             (case find (\<lambda>cat. contains (strip (lower (entry_name cat))) name_q
                                 \<or> contains name_q (strip (lower (entry_name cat))))
                     same_type of
                Some cat \<Rightarrow> Some (entry_id cat)
              | None \<Rightarrow>
                  (case best_overlap (set (split (replace1 47 [32] name_q))) same_type (None, 0) of
                     (best_id, best_score) \<Rightarrow> if 0 < best_score then best_id else None)))"

subsection \<open>The CSV pipeline\<close>

record 'd parse_result =
  rows :: "'d categorized_row list"
  skipped :: nat
  bank :: bank

text \<open>\<^verbatim>\<open>parser_map[bank]\<close>.\<close>

definition parser_map :: "'d clock \<Rightarrow> bank \<Rightarrow> csv_row \<Rightarrow> 'd raw_row option" where
  "parser_map ck b =
     (case b of
        MONO \<Rightarrow> parse_row_mono ck
      | PRIVAT \<Rightarrow> parse_row_privat ck
      | OSCHADBANK \<Rightarrow> parse_row_oschadbank ck
      | RAIFFEISEN \<Rightarrow> parse_row_raiffeisen ck
      | PUMB \<Rightarrow> parse_row_pumb ck
      | ABANK \<Rightarrow> parse_row_abank ck
      | GENERIC \<Rightarrow> parse_row_generic ck)"

text \<open>
  The sign correction of \<^verbatim>\<open>parse_csv\<close>: from the raw amount, the description and the
  categorizer's (category, type) to the corrected pair.
\<close>

definition sign_correction :: "pyfloat \<Rightarrow> ustr \<Rightarrow> ustr \<times> flow \<Rightarrow> ustr \<times> flow" where
  "sign_correction raw_amount desc ct =
     (case ct of
        (cat_name, tx_type0) \<Rightarrow>
          (let is_debit = fl_lt raw_amount (Fin 0);
               tx_type = (if is_debit \<and> tx_type0 = Income then Expense else tx_type0)
           in if \<not> is_debit \<and> tx_type = Expense then
                (let desc_lower = lower desc;
                     is_income_kw =
                       list_ex (contains desc_lower)
                         [[1079, 1072, 1088, 1087, 1083, 1072, 1090, 1072] \<comment> \<open>zarplata\<close>, [1079, 1087] \<comment> \<open>zp\<close>, (asc ''salary''), [1072, 1074, 1072, 1085, 1089] \<comment> \<open>avans\<close>, [1085, 1072, 1088, 1072, 1093, 1091, 1074, 1072, 1085, 1085, 1103, 32, 1079, 1087] \<comment> \<open>narakhuvannya zp\<close>,
                          [1074, 1110, 1076, 32, 1092, 1110, 1079, 1080, 1095, 1085, 1086, 1111] \<comment> \<open>vid fizychnoyi\<close>]
                 in (if is_income_kw then c_Inshyj_dokhid else c_Perekaz_inshe,
                     if is_income_kw then Income else Transfer))
              else (cat_name, tx_type)))"

text \<open>The description as it is stored: at most 255 characters, \<open>None\<close> when empty.\<close>

definition stored_description :: "ustr \<Rightarrow> ustr option" where
  "stored_description d = (if take 255 d = [] then None else Some (take 255 d))"

text \<open>
  The body of the loop of \<^verbatim>\<open>parse_csv\<close> for a row the bank's parser accepted: \<open>None\<close>
  where the loop counts the row as skipped, the emitted dictionary otherwise.
\<close>

definition csv_emit ::
  "ustr \<Rightarrow> category list \<Rightarrow> bank \<Rightarrow> 'd raw_row \<Rightarrow> 'd categorized_row option" where
  "csv_emit uid categories b parsed =
     (let raw_amount = r_amount parsed;
          abs_amount = fl_abs raw_amount
      in if fl_lt abs_amount (Fin (1 / 100)) then None
         else
           (case categorize (r_description parsed) (r_mcc parsed) of
              (cat_name0, tx_type0, ignore) \<Rightarrow>
                (case sign_correction raw_amount (r_description parsed) (cat_name0, tx_type0) of
                   (cat_name, tx_type) \<Rightarrow>
                     Some \<lparr>user_id = uid,
                           c_amount = abs_amount,
                           c_type = tx_type,
                           category_id = find_category_id categories cat_name tx_type,
                           c_description = stored_description (r_description parsed),
                           source = asc ''csv'',
                           ignore_in_stats = ignore,
                           transaction_date = r_date parsed,
                           c_metadata = \<lparr>raw_category = cat_name, m_mcc = r_mcc parsed,
                                          m_bank = b, is_outgoing = None\<rparr>\<rparr>)))"

fun parse_csv_loop ::
  "(csv_row \<Rightarrow> 'd raw_row option) \<Rightarrow> ustr \<Rightarrow> category list \<Rightarrow> bank \<Rightarrow> csv_row list
     \<Rightarrow> 'd categorized_row list \<Rightarrow> nat \<Rightarrow> 'd categorized_row list \<times> nat" where
  "parse_csv_loop parse_row uid categories b [] rs sk = (rs, sk)"
| "parse_csv_loop parse_row uid categories b (raw_row # rest) rs sk =
     (case parse_row raw_row of
        None \<Rightarrow> parse_csv_loop parse_row uid categories b rest rs (sk + 1)
      | Some parsed \<Rightarrow>
          (case csv_emit uid categories b parsed of
             None \<Rightarrow> parse_csv_loop parse_row uid categories b rest rs (sk + 1)
           | Some r \<Rightarrow> parse_csv_loop parse_row uid categories b rest (rs @ [r]) sk))"

text \<open>
  \<^verbatim>\<open>parse_csv\<close>, from the point where \<^verbatim>\<open>csv.DictReader\<close> has split the decoded text:
  \<open>fieldnames\<close> is the header (empty when there is none) and \<open>records\<close> the data lines.
\<close>

record csv_reader =
  fieldnames :: "ustr list"
  records :: "csv_row list"

definition parse_csv ::
  "'d clock \<Rightarrow> csv_reader \<Rightarrow> ustr \<Rightarrow> category list \<Rightarrow> 'd parse_result" where
  "parse_csv ck reader uid categories =
     (if fieldnames reader = [] then \<lparr>rows = [], skipped = 0, bank = GENERIC\<rparr>
      else
        (let b = detect_bank (fieldnames reader);
             parse_row = parser_map ck b
         in case parse_csv_loop parse_row uid categories b (records reader) [] 0 of
              (rs, sk) \<Rightarrow> \<lparr>rows = rs, skipped = sk, bank = b\<rparr>))"

section \<open>The PDF parser (src/ai/pdf\_parser.py)\<close>

subsection \<open>Tables and cells\<close>

text \<open>
  A table as \<^verbatim>\<open>pdfplumber\<close> extracts it: rows of cells, a cell being a text or \<open>None\<close>.
  A page gives its text and the tables found by the two strategies the parser tries
  (ruled lines first, text alignment when the first finds nothing).
\<close>

type_synonym cell = "ustr option"

type_synonym pdf_table = "cell list list"

record pdf_page =
  page_text :: "ustr option"
  tables_lines :: "pdf_table list"
  tables_text :: "pdf_table list"

text \<open>\<^verbatim>\<open>re.match(r"\d{2}\.\d{2}\.\d{4}", s)\<close> and \<^verbatim>\<open>re.match(r"\d{3,4}", s)\<close>: a match at
  the start of the text (the digits are the ASCII ones).\<close>

definition match_date :: "ustr \<Rightarrow> bool" where
  "match_date s =
     (case s of
        d1 # d2 # p1 # m1 # m2 # p2 # y1 # y2 # y3 # y4 # r \<Rightarrow>
          is_digit d1 \<and> is_digit d2 \<and> p1 = 46 \<and> is_digit m1 \<and> is_digit m2 \<and> p2 = 46
          \<and> is_digit y1 \<and> is_digit y2 \<and> is_digit y3 \<and> is_digit y4
      | _ \<Rightarrow> False)"

definition match_digits3 :: "ustr \<Rightarrow> bool" where
  "match_digits3 s =
     (case s of a # b # c # r \<Rightarrow> is_digit a \<and> is_digit b \<and> is_digit c | _ \<Rightarrow> False)"

subsection \<open>Row extraction\<close>

definition is_abank_table :: "pdf_table \<Rightarrow> bool" where
  "is_abank_table table =
     (if table = [] \<or> length table < 2 then False
      else if length (hd table) \<noteq> 11 then False
      else list_ex (\<lambda>row. 5 \<le> length row
                           \<and> match_date (strip (or_empty (row ! 0)))
                           \<and> match_digits3 (strip (or_empty (row ! 3))))
             (take 3 (tl table)))"

text \<open>\<^verbatim>\<open>re.sub(r'(?<=\d) (?=\d)', '', s)\<close>: a space between two digits is dropped; \<open>prev\<close>
  is the character before (0 at the start).\<close>

fun drop_digit_spaces :: "nat \<Rightarrow> ustr \<Rightarrow> ustr" where
  "drop_digit_spaces prev [] = []"
| "drop_digit_spaces prev (c # cs) =
     (if c = 32 \<and> is_digit prev \<and> cs \<noteq> [] \<and> is_digit (hd cs)
      then drop_digit_spaces c cs
      else c # drop_digit_spaces c cs)"

definition parse_abank_amount :: "ustr \<Rightarrow> pyfloat option" where
  "parse_abank_amount raw =
     (if raw = [] \<or> strip raw = [] then None
      else py_float (drop_digit_spaces 0 (strip raw)))"

text \<open>\<^verbatim>\<open>_is_garbage\<close>: more than half of the characters are control characters, the
  replacement character or one of three box glyphs.\<close>

definition is_garbage :: "ustr \<Rightarrow> bool" where
  "is_garbage text =
     (if text = [] then True
      else
        (let bad = length (filter (\<lambda>c. c < 32 \<or> c = 65533 \<or> c \<in> {8226, 9633, 9632}) text)
         in (1 / 2 :: rat) < of_nat bad / of_nat (max (length text) 1)))"

text \<open>The body of the loop of \<^verbatim>\<open>_extract_abank_rows\<close>: \<open>None\<close> where the row is skipped.\<close>

definition abank_row :: "'d clock \<Rightarrow> cell list \<Rightarrow> 'd raw_row option" where
  "abank_row ck row =
     (if length row < 5 then None
      else
        (let date_raw = strip (or_empty (row ! 0));
             desc_raw = strip (or_empty (row ! 2));
             mcc_raw = strip (or_empty (row ! 3));
             amt_raw = strip (or_empty (row ! 4))
         in if \<not> match_date date_raw then None
            else
              (case parse_abank_amount amt_raw of
                 None \<Rightarrow> None
               | Some a \<Rightarrow>
                   Some \<lparr>r_date = (case parse_abank_date ck date_raw of
                                   Some d \<Rightarrow> d | None \<Rightarrow> now ck),
                         r_amount = a,
                         r_description = (if is_garbage desc_raw then [] else desc_raw),
                         r_mcc = mcc_raw\<rparr>)))"

text \<open>The body of the loop of \<^verbatim>\<open>_extract_monobank_rows\<close>.\<close>

definition monobank_row :: "'d clock \<Rightarrow> cell list \<Rightarrow> 'd raw_row option" where
  "monobank_row ck row =
     (if length row < 4 then None
      else
        (let date_raw = strip (or_empty (row ! 0))
         in if date_raw = [] \<or> contains date_raw [1044, 1072, 1090, 1072] \<comment> \<open>Data\<close>
            then None
            else
              (let desc_raw0 = replace1 10 [32] (strip (or_empty (row ! 1)));
                   mcc_raw = strip (or_empty (row ! 2));
                   amt_raw = strip (or_empty (row ! 3))
               in case parse_abank_amount amt_raw of
                    None \<Rightarrow> None
                  | Some a \<Rightarrow>
                      (let desc_raw =
                             (if is_garbage desc_raw0
                              then (if mcc_raw \<noteq> []
                                    then [1055, 1077, 1088, 1077, 1082, 1072, 1079] \<comment> \<open>Perekaz\<close>
                                    else [1041, 1077, 1079, 32, 1086, 1087, 1080, 1089, 1091] \<comment> \<open>Bez opysu\<close>)
                              else desc_raw0);
                           final_desc =
                             (if mcc_raw \<noteq> [] then desc_raw @ asc '' (MCC '' @ mcc_raw @ asc '')''
                              else desc_raw)
                       in Some \<lparr>r_date = (case parse_abank_date ck date_raw of
                                          Some d \<Rightarrow> d | None \<Rightarrow> now ck),
                                r_amount = a,
                                r_description = final_desc,
                                r_mcc = mcc_raw\<rparr>))))"

text \<open>The loop both extractors run over the data rows: a row is appended to \<open>out\<close> or
  counted in \<open>sk\<close>.\<close>

fun extract_loop ::
  "(cell list \<Rightarrow> 'd raw_row option) \<Rightarrow> cell list list \<Rightarrow> 'd raw_row list \<Rightarrow> nat
     \<Rightarrow> 'd raw_row list \<times> nat" where
  "extract_loop body [] out sk = (out, sk)"
| "extract_loop body (row # rest) out sk =
     (case body row of
        None \<Rightarrow> extract_loop body rest out (sk + 1)
      | Some r \<Rightarrow> extract_loop body rest (out @ [r]) sk)"

definition extract_abank_rows :: "'d clock \<Rightarrow> pdf_table \<Rightarrow> 'd raw_row list \<times> nat" where
  "extract_abank_rows ck table = extract_loop (abank_row ck) (drop 1 table) [] 0"

definition is_monobank_table :: "pdf_table \<Rightarrow> bool" where
  "is_monobank_table table =
     (if table = [] \<or> length table < 2 then False
      else if length (hd table) \<noteq> 10 then False
      else if \<not> contains (or_empty (hd table ! 0)) [1044, 1072, 1090, 1072] \<comment> \<open>Data\<close>
           then False
      else True)"

definition extract_monobank_rows :: "'d clock \<Rightarrow> pdf_table \<Rightarrow> 'd raw_row list \<times> nat" where
  "extract_monobank_rows ck table = extract_loop (monobank_row ck) (drop 1 table) [] 0"

subsection \<open>Classification by the sign of the amount\<close>

definition ALWAYS_TRANSFER_MCC :: "ustr set" where
  "ALWAYS_TRANSFER_MCC = {asc ''6010'', asc ''6011'', asc ''6012'', asc ''6050'', asc ''6051''}"

definition TRANSFER_OUT_KEYWORDS :: "ustr list" where
  "TRANSFER_OUT_KEYWORDS =
     [[1076, 1077, 1087, 1086, 1079, 1080, 1090], \<comment> \<open>depozyt\<close>
      [1074, 1082, 1083, 1072, 1076], \<comment> \<open>vklad\<close>
      [1085, 1072, 1082, 1086, 1087, 1080, 1095], \<comment> \<open>nakopych\<close>
      [1085, 1072, 32, 1073, 1072, 1085, 1082, 1091], \<comment> \<open>na banku\<close>
      [1079, 1072, 1086, 1097, 1072, 1076, 1078], \<comment> \<open>zaoshchadzh\<close>
      [1089, 1082, 1072, 1088, 1073, 1085, 1080, 1095, 1082] \<comment> \<open>skarbnychk\<close>]"

definition INCOME_KEYWORDS :: "ustr list" where
  "INCOME_KEYWORDS =
     [[1079, 1072, 1088, 1087, 1083, 1072, 1090, 1072], \<comment> \<open>zarplata\<close>
      [1079, 1087], \<comment> \<open>zp\<close>
      asc ''salary'',
      [1072, 1074, 1072, 1085, 1089], \<comment> \<open>avans\<close>
      [1074, 1080, 1087, 1083, 1072, 1090, 1072], \<comment> \<open>vyplata\<close>
      [1085, 1072, 1088, 1072, 1093, 1091, 1074, 1072, 1085, 1085, 1103, 32, 1079, 1087], \<comment> \<open>narakhuvannya zp\<close>
      [1079, 1072, 1088, 1086, 1073, 1110, 1090, 1085, 1072, 32, 1087, 1083, 1072, 1090, 1072], \<comment> \<open>zarobitna plata\<close>
      [1092, 1088, 1110, 1083, 1072, 1085, 1089], \<comment> \<open>frilans\<close>
      [1085, 1072, 1076, 1093, 1086, 1076, 1078, 1077, 1085, 1085, 1103], \<comment> \<open>nadkhodzhennya\<close>
      [1087, 1086, 1074, 1077, 1088, 1085, 1077, 1085, 1085, 1103] \<comment> \<open>povernennya\<close>]"

text \<open>
  The character classes of \<^verbatim>\<open>_RE_PERSON_NAME\<close>: an upper-case Cyrillic letter
  (U+0410..U+042F and the four Ukrainian ones), and a lower-case letter, apostrophe or
  hyphen.
\<close>

definition name_upper :: "nat \<Rightarrow> bool" where
  "name_upper c \<longleftrightarrow> (1040 \<le> c \<and> c \<le> 1071) \<or> c = 1030 \<or> c = 1031 \<or> c = 1028 \<or> c = 1168"

definition name_lower :: "nat \<Rightarrow> bool" where
  "name_lower c \<longleftrightarrow>
     (1072 \<le> c \<and> c \<le> 1103) \<or> c = 1110 \<or> c = 1111 \<or> c = 1108 \<or> c = 1169 \<or> c = 39 \<or> c = 45"

text \<open>
  The regular expression is anchored at both ends, so it matches exactly the texts of
  its language. The matcher computes, for each part of the expression, every rest
  that can remain after the part: \<open>name_tail n\<close> reads between one and \<open>n\<close> lower-class
  characters, \<open>name_word\<close> an upper-case letter and up to twenty of them, \<open>name_group\<close> a
  separator (whitespace or hyphen) and a word.
\<close>

fun name_tail :: "nat \<Rightarrow> ustr \<Rightarrow> ustr list" where
  "name_tail 0 s = []"
| "name_tail (Suc n) [] = []"
| "name_tail (Suc n) (c # cs) = (if name_lower c then cs # name_tail n cs else [])"

definition name_word :: "ustr \<Rightarrow> ustr list" where
  "name_word s =
     (case s of [] \<Rightarrow> [] | c # cs \<Rightarrow> if name_upper c then name_tail 20 cs else [])"

definition name_group :: "ustr \<Rightarrow> ustr list" where
  "name_group s =
     (case s of [] \<Rightarrow> [] | c # cs \<Rightarrow> if is_space c \<or> c = 45 then name_word cs else [])"

definition re_person_name :: "ustr \<Rightarrow> bool" where
  "re_person_name s =
     (let g1 = concat (map name_group (name_word s));
          g2 = concat (map name_group g1);
          g3 = concat (map name_group g2)
      in [] \<in> set (g1 @ g2 @ g3))"

text \<open>The characters \<^verbatim>\<open>_is_person_name\<close> rejects: a digit (the ASCII ones) or one
  of \<^verbatim>\<open>@ . , / * & # ( ) { } [ ] |\<close>.\<close>

definition name_forbidden :: "nat \<Rightarrow> bool" where
  "name_forbidden c \<longleftrightarrow>
     is_digit c \<or> c \<in> {64, 46, 44, 47, 42, 38, 35, 40, 41, 123, 125, 91, 93, 124}"

definition is_person_name :: "ustr \<Rightarrow> bool" where
  "is_person_name text =
     (if text = [] \<or> length text < 5 then False
      else if list_ex name_forbidden text then False
      else if length (split text) < 2 \<or> 4 < length (split text) then False
      else re_person_name (strip text))"

definition classify_transaction :: "pyfloat \<Rightarrow> ustr \<Rightarrow> ustr \<Rightarrow> ustr \<times> flow \<times> bool" where
  "classify_transaction raw_amount desc mcc =
     (let desc_lower = lower desc;
          is_positive = fl_gt raw_amount (Fin 0)
      in if is_person_name desc then (c_Perekaz_lyudyni, Transfer, False)
         else if mcc \<in> ALWAYS_TRANSFER_MCC then
           (if is_positive then
              (if list_ex (contains desc_lower) INCOME_KEYWORDS then (c_Inshyj_dokhid, Income, False)
               else if mcc = asc ''4829'' then (c_Inshyj_dokhid, Income, False)
               else (c_Perekaz_inshe, Transfer, False))
            else
              (if list_ex (contains desc_lower) TRANSFER_OUT_KEYWORDS
               then (c_Investytsiyi_Skarbnychka, Transfer, False)
               else (c_Perekaz_inshe, Transfer, False)))
         else if is_positive then
           (if list_ex (contains desc_lower) TRANSFER_OUT_KEYWORDS
            then (c_Perekaz_inshe, Transfer, False)
            else if list_ex (contains desc_lower)
                      [[1079, 1072, 1088, 1087, 1083, 1072, 1090, 1072] \<comment> \<open>zarplata\<close>, [1079, 1087] \<comment> \<open>zp\<close>, (asc ''salary''), [1072, 1074, 1072, 1085, 1089] \<comment> \<open>avans\<close>]
            then (c_Zarplata, Income, False)
            else if list_ex (contains desc_lower)
                      [[1092, 1088, 1110, 1083, 1072, 1085, 1089] \<comment> \<open>frilans\<close>, (asc ''freelance''), (asc ''upwork'')]
            then (c_Frilans, Income, False)
            else (case categorize desc mcc of
                    (cat_name, tx_type, ignore) \<Rightarrow>
                      if tx_type = Expense then (c_Inshyj_dokhid, Income, False)
                      else (cat_name, tx_type, ignore)))
         else (case categorize desc mcc of
                 (cat_name, tx_type, ignore) \<Rightarrow>
                   if tx_type = Income then (c_Inshe, Expense, False)
                   else (cat_name, tx_type, ignore)))"

subsection \<open>The PDF pipeline\<close>

text \<open>The totals a statement reports about itself: an amount (or nothing, when the
  text found is no number) or a date text, by key.\<close>

datatype total_value = TAmount "pyfloat option" | TText ustr

type_synonym totals = "(ustr \<times> total_value) list"

record 'd pdf_parse_result = "'d parse_result" +
  bank_totals :: totals

text \<open>The body of the loop of \<^verbatim>\<open>_process_raw_rows\<close>.\<close>

definition pdf_emit ::
  "ustr \<Rightarrow> category list \<Rightarrow> bank \<Rightarrow> 'd raw_row \<Rightarrow> 'd categorized_row option" where
  "pdf_emit uid categories b parsed =
     (let raw_amount = r_amount parsed;
          abs_amount = fl_abs raw_amount
      in if fl_lt abs_amount (Fin (1 / 100)) then None
         else
           (case classify_transaction raw_amount (r_description parsed) (r_mcc parsed) of
              (cat_name, tx_type, ignore) \<Rightarrow>
                Some \<lparr>user_id = uid,
                      c_amount = abs_amount,
                      c_type = tx_type,
                      category_id = find_category_id categories cat_name tx_type,
                      c_description = stored_description (r_description parsed),
                      source = asc ''csv'',
                      ignore_in_stats = ignore,
                      transaction_date = r_date parsed,
                      c_metadata = \<lparr>raw_category = cat_name, m_mcc = r_mcc parsed,
                                     m_bank = b,
                                     is_outgoing = Some (fl_lt raw_amount (Fin 0))\<rparr>\<rparr>))"

fun process_loop ::
  "ustr \<Rightarrow> category list \<Rightarrow> bank \<Rightarrow> 'd raw_row list \<Rightarrow> 'd categorized_row list \<Rightarrow> nat
     \<Rightarrow> 'd categorized_row list \<times> nat" where
  "process_loop uid categories b [] out_rows total_skipped = (out_rows, total_skipped)"
| "process_loop uid categories b (parsed # rest) out_rows total_skipped =
     (case pdf_emit uid categories b parsed of
        None \<Rightarrow> process_loop uid categories b rest out_rows (total_skipped + 1)
      | Some r \<Rightarrow> process_loop uid categories b rest (out_rows @ [r]) total_skipped)"

definition process_raw_rows ::
  "'d raw_row list \<Rightarrow> nat \<Rightarrow> bank \<Rightarrow> totals \<Rightarrow> ustr \<Rightarrow> category list \<Rightarrow> 'd pdf_parse_result" where
  "process_raw_rows raw_rows total_skipped b tot uid categories =
     (case process_loop uid categories b raw_rows [] total_skipped of
        (out_rows, sk) \<Rightarrow>
          \<lparr>rows = out_rows, skipped = sk, bank = b, bank_totals = tot\<rparr>)"

text \<open>
  The two loops \<^verbatim>\<open>_parse_abank_pdf\<close> and \<^verbatim>\<open>_parse_monobank_pdf\<close> share: over the
  pages, and over the tables of a page. \<open>is_table\<close> and \<open>extract\<close> are the bank's table
  test and row extractor.
\<close>

definition page_tables :: "pdf_page \<Rightarrow> pdf_table list" where
  "page_tables page = (if tables_lines page = [] then tables_text page else tables_lines page)"

fun tables_loop ::
  "(pdf_table \<Rightarrow> bool) \<Rightarrow> (pdf_table \<Rightarrow> 'd raw_row list \<times> nat) \<Rightarrow> pdf_table list
     \<Rightarrow> 'd raw_row list \<Rightarrow> nat \<Rightarrow> 'd raw_row list \<times> nat" where
  "tables_loop is_table extract [] raw_rows total_skipped = (raw_rows, total_skipped)"
| "tables_loop is_table extract (tbl # rest) raw_rows total_skipped =
     (if tbl = [] then tables_loop is_table extract rest raw_rows total_skipped
      else if is_table tbl then
        (case extract tbl of
           (rs, sk) \<Rightarrow> tables_loop is_table extract rest (raw_rows @ rs) (total_skipped + sk))
      else tables_loop is_table extract rest raw_rows total_skipped)"

fun pages_loop ::
  "(pdf_table \<Rightarrow> bool) \<Rightarrow> (pdf_table \<Rightarrow> 'd raw_row list \<times> nat) \<Rightarrow> pdf_page list
     \<Rightarrow> 'd raw_row list \<Rightarrow> nat \<Rightarrow> 'd raw_row list \<times> nat" where
  "pages_loop is_table extract [] raw_rows total_skipped = (raw_rows, total_skipped)"
| "pages_loop is_table extract (page # rest) raw_rows total_skipped =
     (case tables_loop is_table extract (page_tables page) raw_rows total_skipped of
        (rs, sk) \<Rightarrow> pages_loop is_table extract rest rs sk)"

text \<open>
  \<^verbatim>\<open>_parse_abank_pdf\<close>. The header totals come from \<^verbatim>\<open>_extract_abank_header\<close>, five
  regular-expression searches of the first page's text; \<open>header\<close> stands for that
  function, \<open>None\<close> being an exception inside it, which the parser turns into no totals.
\<close>

definition parse_abank_pdf ::
  "'d clock \<Rightarrow> (pdf_page list \<Rightarrow> totals option) \<Rightarrow> pdf_page list \<Rightarrow> ustr \<Rightarrow> category list
     \<Rightarrow> 'd pdf_parse_result" where
  "parse_abank_pdf ck header pdf uid categories =
     (let tot = (case header pdf of None \<Rightarrow> [] | Some t \<Rightarrow> t) in
      case pages_loop is_abank_table (extract_abank_rows ck) pdf [] 0 of
        (raw_rows, total_skipped) \<Rightarrow>
          if raw_rows = []
          then \<lparr>rows = [], skipped = total_skipped, bank = ABANK, bank_totals = tot\<rparr>
          else process_raw_rows raw_rows total_skipped ABANK tot uid categories)"

definition parse_monobank_pdf ::
  "'d clock \<Rightarrow> pdf_page list \<Rightarrow> ustr \<Rightarrow> category list \<Rightarrow> 'd pdf_parse_result" where
  "parse_monobank_pdf ck pdf uid categories =
     (case pages_loop is_monobank_table (extract_monobank_rows ck) pdf [] 0 of
        (raw_rows, total_skipped) \<Rightarrow>
          if raw_rows = []
          then \<lparr>rows = [], skipped = total_skipped, bank = MONO, bank_totals = []\<rparr>
          else process_raw_rows raw_rows total_skipped MONO [] uid categories)"

text \<open>
  \<^verbatim>\<open>parse_pdf\<close>, from the opened document (its pages). The errors it can raise are
  values: \<^verbatim>\<open>pdf.pages[0]\<close> on a document without pages, and the explicit
  \<^verbatim>\<open>ValueError\<close> with its message.
\<close>

datatype error = IndexError | ValueError ustr

definition unknown_format_message :: ustr where
  "unknown_format_message =
     [1053, 1077, 1074, 1110, 1076, 1086, 1084, 1080, 1081, 32, 1092, 1086, 1088, 1084, 1072, 1090, 32, 1074, 1080, 1087, 1080, 1089, 1082, 1080, 46, 32, 1055, 1110, 1076, 1090, 1088, 1080, 1084, 1091, 1074, 1072, 1085, 1110, 32, 1092, 1086, 1088, 1084, 1072, 1090, 1080, 58, 32, 77, 111, 110, 111, 98, 97, 110, 107, 44, 32, 1040, 45, 1041, 1072, 1085, 1082, 46] \<comment> \<open>Nevidomyj format vypysky. Pidtrymuvani formaty: Monobank, A-Bank.\<close>"

definition parse_pdf ::
  "'d clock \<Rightarrow> (pdf_page list \<Rightarrow> totals option) \<Rightarrow> pdf_page list \<Rightarrow> ustr \<Rightarrow> category list
     \<Rightarrow> error + 'd pdf_parse_result" where
  "parse_pdf ck header pdf uid categories =
     (case pdf of
        [] \<Rightarrow> Inl IndexError
      | first_page # _ \<Rightarrow>
          (let first_page_text = or_empty (page_text first_page);
               text_lower = lower first_page_text
           in if contains text_lower (asc ''monobank'')
                 \<or> contains text_lower [1091, 1085, 1110, 1074, 1077, 1088, 1089, 1072, 1083, 32, 1073, 1072, 1085, 1082] \<comment> \<open>universal bank\<close>
                 \<or> contains text_lower (asc ''universal bank'')
              then Inr (parse_monobank_pdf ck pdf uid categories)
              else if contains text_lower [1072, 45, 1073, 1072, 1085, 1082] \<comment> \<open>a-bank\<close>
                      \<or> contains text_lower [1072, 1082, 1094, 1077, 1085, 1090, 45, 1073, 1072, 1085, 1082] \<comment> \<open>aktsent-bank\<close>
              then Inr (parse_abank_pdf ck header pdf uid categories)
              else Inl (ValueError unknown_format_message)))"

section \<open>Example inputs\<close>

text \<open>A clock for the examples: no date text is read, and the time is 0.\<close>

definition example_clock :: "nat clock" where
  "example_clock = \<lparr>parse_date = (\<lambda>s. None), parse_abank_date = (\<lambda>s. None), now = 0\<rparr>"

text \<open>A Monobank CSV export with one data line,
  \<^verbatim>\<open>01.01.2025 10:00,<description>,<mcc>,<amount>\<close>, under the four headers of the bank.\<close>

definition mono_record :: "ustr \<Rightarrow> ustr \<Rightarrow> ustr \<Rightarrow> csv_row" where
  "mono_record desc mcc amt =
     [([1044, 1072, 1090, 1072, 32, 1110, 32, 1095, 1072, 1089, 32, 1086, 1087, 1077, 1088, 1072, 1094, 1110, 1111] \<comment> \<open>Data i chas operatsiyi\<close>, Some (asc ''01.01.2025 10:00'')),
      ([1044, 1077, 1090, 1072, 1083, 1110, 32, 1086, 1087, 1077, 1088, 1072, 1094, 1110, 1111] \<comment> \<open>Detali operatsiyi\<close>, Some desc),
      ((asc ''MCC''), Some mcc),
      ([1057, 1091, 1084, 1072] \<comment> \<open>Suma\<close>, Some amt)]"

definition mono_csv :: "ustr \<Rightarrow> ustr \<Rightarrow> ustr \<Rightarrow> csv_reader" where
  "mono_csv desc mcc amt =
     \<lparr>fieldnames = [[1044, 1072, 1090, 1072, 32, 1110, 32, 1095, 1072, 1089, 32, 1086, 1087, 1077, 1088, 1072, 1094, 1110, 1111] \<comment> \<open>Data i chas operatsiyi\<close>,
                     [1044, 1077, 1090, 1072, 1083, 1110, 32, 1086, 1087, 1077, 1088, 1072, 1094, 1110, 1111] \<comment> \<open>Detali operatsiyi\<close>,
                     (asc ''MCC''), [1057, 1091, 1084, 1072] \<comment> \<open>Suma\<close>],
      records = [mono_record desc mcc amt]\<rparr>"

text \<open>A Monobank PDF statement of one page with one table: the header row of ten cells
  and one data row (date, description, MCC, amount and six more cells).\<close>

definition mono_pdf :: "ustr \<Rightarrow> ustr \<Rightarrow> ustr \<Rightarrow> pdf_page list" where
  "mono_pdf desc mcc amt =
     [\<lparr>page_text = Some [1042, 1080, 1087, 1080, 1089, 1082, 1072, 32, 109, 111, 110, 111, 98, 97, 110, 107] \<comment> \<open>Vypyska monobank\<close>,
       tables_lines =
         [[[Some [1044, 1072, 1090, 1072, 32, 1110, 32, 1095, 1072, 1089, 32, 1086, 1087, 1077, 1088, 1072, 1094, 1110, 1111] \<comment> \<open>Data i chas operatsiyi\<close>, Some [1044, 1077, 1090, 1072, 1083, 1110, 32, 1086, 1087, 1077, 1088, 1072, 1094, 1110, 1111] \<comment> \<open>Detali operatsiyi\<close>,
            Some (asc ''MCC''), Some [1057, 1091, 1084, 1072] \<comment> \<open>Suma\<close>, None, None, None, None, None, None],
           [Some (asc ''01.01.2025''), Some desc, Some mcc, Some amt, None, None, None, None, None,
            None]]],
       tables_text = []\<rparr>]"

text \<open>The first page of a statement of a bank the PDF parser does not know: its text
  is "Vypyska PryvatBank" (in Cyrillic), and it has no table.\<close>

definition privat_page :: pdf_page where
  "privat_page =
     \<lparr>page_text = Some [1042, 1080, 1087, 1080, 1089, 1082, 1072, 32, 1055, 1088, 1080, 1074, 1072, 1090, 1041, 1072, 1085, 1082] \<comment> \<open>Vypyska PryvatBank\<close>, tables_lines = [], tables_text = []\<rparr>"

text \<open>Two rows as a bank's parser returns them: a card payment of 150 at a supermarket
  (MCC 5411), and a debit of 5000 whose description is the salary keyword "zarplata".\<close>

definition supermarket_debit :: "nat raw_row" where
  "supermarket_debit =
     \<lparr>r_date = 0, r_amount = Fin (- 150), r_description = [1040, 1058, 1041, 32, 1052, 1072, 1088, 1082, 1077, 1090] \<comment> \<open>ATB Market\<close>,
      r_mcc = (asc ''5411'')\<rparr>"

definition salary_debit :: "nat raw_row" where
  "salary_debit =
     \<lparr>r_date = 0, r_amount = Fin (- 5000), r_description = [1079, 1072, 1088, 1087, 1083, 1072, 1090, 1072] \<comment> \<open>zarplata\<close>,
      r_mcc = []\<rparr>"

text \<open>A table of a Monobank PDF statement whose data row has a bare two-word name as
  its description and the MCC 4829.\<close>

definition person_table :: pdf_table where
  "person_table =
     [[Some [1044, 1072, 1090, 1072, 32, 1110, 32, 1095, 1072, 1089, 32, 1086, 1087, 1077, 1088, 1072, 1094, 1110, 1111] \<comment> \<open>Data i chas operatsiyi\<close>, Some [1044, 1077, 1090, 1072, 1083, 1110, 32, 1086, 1087, 1077, 1088, 1072, 1094, 1110, 1111] \<comment> \<open>Detali operatsiyi\<close>,
       Some (asc ''MCC''), Some [1057, 1091, 1084, 1072] \<comment> \<open>Suma\<close>, None, None, None, None, None, None],
      [Some (asc ''01.01.2025''), Some [1030, 1074, 1072, 1085, 32, 1055, 1077, 1090, 1088, 1077, 1085, 1082, 1086] \<comment> \<open>Ivan Petrenko\<close>, Some (asc ''4829''), Some (asc ''-300.00''), None, None,
       None, None, None, None]]"

text \<open>The same table with an MCC cell that holds one space, and with an MCC cell that
  holds the letter \<^verbatim>\<open>x\<close>.\<close>

definition blank_mcc_table :: pdf_table where
  "blank_mcc_table =
     [[Some [1044, 1072, 1090, 1072, 32, 1110, 32, 1095, 1072, 1089, 32, 1086, 1087, 1077, 1088, 1072, 1094, 1110, 1111] \<comment> \<open>Data i chas operatsiyi\<close>, Some [1044, 1077, 1090, 1072, 1083, 1110, 32, 1086, 1087, 1077, 1088, 1072, 1094, 1110, 1111] \<comment> \<open>Detali operatsiyi\<close>,
       Some (asc ''MCC''), Some [1057, 1091, 1084, 1072] \<comment> \<open>Suma\<close>, None, None, None, None, None, None],
      [Some (asc ''01.01.2025''), Some [1030, 1074, 1072, 1085, 32, 1055, 1077, 1090, 1088, 1077, 1085, 1082, 1086] \<comment> \<open>Ivan Petrenko\<close>, Some (asc '' ''), Some (asc ''-300.00''), None, None,
       None, None, None, None]]"

definition letter_mcc_table :: pdf_table where
  "letter_mcc_table =
     [[Some [1044, 1072, 1090, 1072, 32, 1110, 32, 1095, 1072, 1089, 32, 1086, 1087, 1077, 1088, 1072, 1094, 1110, 1111] \<comment> \<open>Data i chas operatsiyi\<close>, Some [1044, 1077, 1090, 1072, 1083, 1110, 32, 1086, 1087, 1077, 1088, 1072, 1094, 1110, 1111] \<comment> \<open>Detali operatsiyi\<close>,
       Some (asc ''MCC''), Some [1057, 1091, 1084, 1072] \<comment> \<open>Suma\<close>, None, None, None, None, None, None],
      [Some (asc ''01.01.2025''), Some [1030, 1074, 1072, 1085, 32, 1055, 1077, 1090, 1088, 1077, 1085, 1082, 1086] \<comment> \<open>Ivan Petrenko\<close>, Some (asc ''x''), Some (asc ''-300.00''), None, None,
       None, None, None, None]]"
section \<open>Properties\<close>

subsection \<open>Evaluating the definitions on concrete inputs\<close>

lemma asc_simps:
  "asc [] = []"
  "asc (c # cs) = of_char c # asc cs"
  by (simp_all add: asc_def)

lemma name_tail_Nil: "name_tail n [] = []"
  by (cases n) simp_all

lemma name_tail_Cons:
  "name_tail n (c # cs) =
     (if n = 0 then [] else if name_lower c then cs # name_tail (n - 1) cs else [])"
  by (cases n) simp_all

lemmas str_eval = asc_simps strip_def is_space_def lower_def lower_cp_def

lemmas float_eval = py_float_def strip_def is_space_def is_digit_def parse_unsigned_def
  lower_def lower_cp_def parse_decimal_def parse_exponent_def

lemmas amount_eval = parse_amount_def replace1_def count1_def

lemmas name_eval = is_person_name_def name_forbidden_def is_digit_def split_def is_space_def
  re_person_name_def name_word_def name_group_def name_upper_def name_lower_def strip_def
  name_tail_Nil name_tail_Cons

lemmas pdf_row_eval = monobank_row_def or_empty_def replace1_def parse_abank_amount_def
  is_garbage_def example_clock_def

lemmas category_defs = c_Supermarkety_def c_Kava_Sneky_def c_Zaklady_def c_Liky_Likari_def
  c_Podiyi_Khobi_def c_Sportzal_def c_Odyah_Vzuttya_def c_Elektronika_def
  c_Servisy_Pidpysky_def c_Tovary_dlya_domu_def c_Avto_def c_Taksi_Hromadskyj_def
  c_Orenda_Komunalni_def c_Zvyazok_def c_Osvita_def c_Byuti_def c_Rozvazhalni_pidpysky_def
  c_Perekaz_inshe_def c_Obmin_valyut_def c_Zarplata_def c_Frilans_def c_Inshyj_dokhid_def
  c_Podarunok_def c_Investytsiyi_Skarbnychka_def c_ZSU_Volontery_def c_Komisiyi_bankiv_def
  c_Inshe_def c_Perekaz_lyudyni_def

subsection \<open>Amount parsing\<close>

text \<open>
  Claim C6. \<open>parse_amount\<close> reads \<^verbatim>\<open>"1 500,00"\<close> as 1500.00, \<^verbatim>\<open>"-1500.50"\<close> as
  -1500.50 and \<^verbatim>\<open>"1,234,567"\<close> as 1234567 (several commas are thousands separators), and
  gives no value on \<^verbatim>\<open>"abc"\<close>.
\<close>

theorem parse_amount_examples:
  "parse_amount (asc ''1 500,00'') = Some (Fin 1500)
   \<and> parse_amount (asc ''-1500.50'') = Some (Fin (- (3001 / 2)))
   \<and> parse_amount (asc ''1,234,567'') = Some (Fin 1234567)
   \<and> parse_amount (asc ''abc'') = None"
  by (simp add: amount_eval float_eval asc_simps)

subsection \<open>Bank detection\<close>

lemma detect_bank_first_match:
  "detect_bank headers =
     first_match signature_rules (set (map (\<lambda>h. strip (lower h)) headers))"
  by (simp add: detect_bank_def signature_rules_def Let_def)

lemma detect_bank_mono_example:
  "detect_bank [[1044, 1072, 1090, 1072, 32, 1110, 32, 1095, 1072, 1089, 32, 1086, 1087, 1077, 1088, 1072, 1094, 1110, 1111] \<comment> \<open>Data i chas operatsiyi\<close>, (asc ''MCC''), [1057, 1091, 1084, 1072] \<comment> \<open>Suma\<close>] = MONO"
  by (simp add: detect_bank_def str_eval)

lemma first_match_find:
  "first_match rules H =
     (case find (\<lambda>rule. fst rule H) rules of None \<Rightarrow> GENERIC | Some rule \<Rightarrow> snd rule)"
  by (induction rules H rule: first_match.induct) simp_all

text \<open>
  Claim C7. On the three headers "Data i chas operatsiyi", "MCC", "Suma" (written in
  Cyrillic) the detector answers Monobank. In general its answer is that of the first
  rule, in the fixed order of the list of signature rules, whose test the lower-cased
  and stripped headers pass, and the generic identifier when no rule matches.
\<close>

theorem detect_bank_ordered_rules:
  "detect_bank [[1044, 1072, 1090, 1072, 32, 1110, 32, 1095, 1072, 1089, 32, 1086, 1087, 1077, 1088, 1072, 1094, 1110, 1111] \<comment> \<open>Data i chas operatsiyi\<close>, (asc ''MCC''), [1057, 1091, 1084, 1072] \<comment> \<open>Suma\<close>] = MONO
   \<and> (\<forall>headers. detect_bank headers =
          (case find (\<lambda>rule. fst rule (set (map (\<lambda>h. strip (lower h)) headers)))
                  signature_rules of
             None \<Rightarrow> GENERIC
           | Some rule \<Rightarrow> snd rule))"
  using detect_bank_mono_example
  by (simp add: detect_bank_first_match first_match_find)

subsection \<open>The categorizer\<close>

lemma categorize_rules_find:
  "categorize_rules rules d =
     (case find (\<lambda>rule. list_ex (contains d) (fst rule)) rules of
        None \<Rightarrow> (c_Inshe, Expense, False)
      | Some rule \<Rightarrow>
          (fst (snd rule), snd (snd rule),
           list_ex (contains d) [[1087, 1086, 1074, 1077, 1088, 1085, 1077, 1085, 1085, 1103, 32, 1073, 1086, 1088, 1075, 1091] \<comment> \<open>povernennya borhu\<close>, [1087, 1086, 1076, 1110, 1083] \<comment> \<open>podil\<close>, (asc ''split check'')]))"
  by (induction rules d rule: categorize_rules.induct) simp_all

lemma debt_repayment_no_keyword:
  "\<not> list_ex (\<lambda>rule. list_ex (contains (lower [1087, 1086, 1074, 1077, 1088, 1085, 1077, 1085, 1085, 1103, 32, 1073, 1086, 1088, 1075, 1091, 32, 50, 48, 48] \<comment> \<open>povernennya borhu 200\<close>)) (fst rule))
        KEYWORD_RULES"
  by (simp add: KEYWORD_RULES_def str_eval)

lemma categorize_debt_repayment:
  "categorize [1087, 1086, 1074, 1077, 1088, 1085, 1077, 1085, 1085, 1103, 32, 1073, 1086, 1088, 1075, 1091, 32, 50, 48, 48] \<comment> \<open>povernennya borhu 200\<close> [] = (c_Inshe, Expense, False)"
  by (simp add: categorize_def KEYWORD_RULES_def str_eval)

text \<open>
  Claim C3, as it is stated, fails. The description of the claim ("povernennya borhu 200",
  in Cyrillic) contains no keyword of any rule, so the categorizer never reaches the
  test for the ignore markers, and the flag it returns is false.
\<close>

theorem debt_repayment_not_ignored:
  "\<not> list_ex (\<lambda>rule. list_ex (contains (lower [1087, 1086, 1074, 1077, 1088, 1085, 1077, 1085, 1085, 1103, 32, 1073, 1086, 1088, 1075, 1091, 32, 50, 48, 48] \<comment> \<open>povernennya borhu 200\<close>)) (fst rule))
        KEYWORD_RULES
   \<and> \<not> snd (snd (categorize [1087, 1086, 1074, 1077, 1088, 1085, 1077, 1085, 1085, 1103, 32, 1073, 1086, 1088, 1075, 1091, 32, 50, 48, 48] \<comment> \<open>povernennya borhu 200\<close> []))"
  using debt_repayment_no_keyword by (simp add: categorize_debt_repayment)

text \<open>
  Claim C3, amended. On that description, with an empty MCC, the categorizer returns
  the fallback (category "Inshe", expense, not ignored). The ignore markers count only
  inside a keyword rule that matched: whenever a rule is the first to match the
  lower-cased description, the category and the type are that rule's, and the flag says
  whether the description contains one of the three markers.
\<close>

theorem ignore_marker_within_matched_rule:
  "categorize [1087, 1086, 1074, 1077, 1088, 1085, 1077, 1085, 1085, 1103, 32, 1073, 1086, 1088, 1075, 1091, 32, 50, 48, 48] \<comment> \<open>povernennya borhu 200\<close> [] = (c_Inshe, Expense, False)
   \<and> (\<forall>d rule.
         find (\<lambda>rule. list_ex (contains (lower d)) (fst rule)) KEYWORD_RULES = Some rule
         \<longrightarrow> categorize d [] =
               (fst (snd rule), snd (snd rule),
                list_ex (contains (lower d))
                  [[1087, 1086, 1074, 1077, 1088, 1085, 1077, 1085, 1085, 1103, 32, 1073, 1086, 1088, 1075, 1091] \<comment> \<open>povernennya borhu\<close>, [1087, 1086, 1076, 1110, 1083] \<comment> \<open>podil\<close>, (asc ''split check'')]))"
  by (simp add: categorize_debt_repayment) (simp add: categorize_def categorize_rules_find)

theorem ignore_marker_within_matched_rule_witness:
  "find (\<lambda>rule. list_ex (contains (lower [1082, 1072, 1074, 1072, 32, 1087, 1086, 1074, 1077, 1088, 1085, 1077, 1085, 1085, 1103, 32, 1073, 1086, 1088, 1075, 1091, 32, 50, 48, 48] \<comment> \<open>kava povernennya borhu 200\<close>)) (fst rule))
      KEYWORD_RULES = Some (KEYWORD_RULES ! 2)
   \<and> categorize [1082, 1072, 1074, 1072, 32, 1087, 1086, 1074, 1077, 1088, 1085, 1077, 1085, 1085, 1103, 32, 1073, 1086, 1088, 1075, 1091, 32, 50, 48, 48] \<comment> \<open>kava povernennya borhu 200\<close> [] = (c_Kava_Sneky, Expense, True)"
proof -
  have f: "find (\<lambda>rule. list_ex (contains (lower [1082, 1072, 1074, 1072, 32, 1087, 1086, 1074, 1077, 1088, 1085, 1077, 1085, 1085, 1103, 32, 1073, 1086, 1088, 1075, 1091, 32, 50, 48, 48] \<comment> \<open>kava povernennya borhu 200\<close>)) (fst rule))
      KEYWORD_RULES = Some (KEYWORD_RULES ! 2)"
    by (simp add: KEYWORD_RULES_def str_eval)
  have m: "list_ex (contains (lower [1082, 1072, 1074, 1072, 32, 1087, 1086, 1074, 1077, 1088, 1085, 1077, 1085, 1085, 1103, 32, 1073, 1086, 1088, 1075, 1091, 32, 50, 48, 48] \<comment> \<open>kava povernennya borhu 200\<close>))
             [[1087, 1086, 1074, 1077, 1088, 1085, 1077, 1085, 1085, 1103, 32, 1073, 1086, 1088, 1075, 1091] \<comment> \<open>povernennya borhu\<close>, [1087, 1086, 1076, 1110, 1083] \<comment> \<open>podil\<close>, (asc ''split check'')]"
    by (simp add: str_eval)
  have r: "fst (snd (KEYWORD_RULES ! 2)) = c_Kava_Sneky" "snd (snd (KEYWORD_RULES ! 2)) = Expense"
    by (simp_all add: KEYWORD_RULES_def)
  note c = ignore_marker_within_matched_rule[THEN conjunct2, rule_format, OF f]
  have "categorize [1082, 1072, 1074, 1072, 32, 1087, 1086, 1074, 1077, 1088, 1085, 1077, 1085, 1085, 1103, 32, 1073, 1086, 1088, 1075, 1091, 32, 50, 48, 48] \<comment> \<open>kava povernennya borhu 200\<close> [] = (c_Kava_Sneky, Expense, True)"
    unfolding c r using m by simp
  with f show ?thesis by simp
qed

subsection \<open>The loops\<close>

lemma parse_csv_loop_rows:
  "fst (parse_csv_loop parse_row uid cats b raws rs sk) =
     rs @ List.map_filter (\<lambda>raw. Option.bind (parse_row raw) (csv_emit uid cats b)) raws"
  by (induction raws arbitrary: rs sk)
     (simp_all add: List.map_filter_simps split: option.split)

lemma parse_csv_loop_skipped:
  "snd (parse_csv_loop parse_row uid cats b raws rs sk) =
     sk + length (filter (\<lambda>raw. Option.bind (parse_row raw) (csv_emit uid cats b) = None) raws)"
  by (induction raws arbitrary: rs sk) (simp_all split: option.split)

lemma process_loop_rows:
  "fst (process_loop uid cats b raws out sk) = out @ List.map_filter (pdf_emit uid cats b) raws"
  by (induction raws arbitrary: out sk)
     (simp_all add: List.map_filter_simps split: option.split)

lemma process_loop_skipped:
  "snd (process_loop uid cats b raws out sk) =
     sk + length (filter (\<lambda>p. pdf_emit uid cats b p = None) raws)"
  by (induction raws arbitrary: out sk) (simp_all split: option.split)

lemma extract_loop_rows:
  "fst (extract_loop body table_rows out sk) = out @ List.map_filter body table_rows"
  by (induction table_rows arbitrary: out sk)
     (simp_all add: List.map_filter_simps split: option.split)

lemma set_map_filter_iff:
  "r \<in> set (List.map_filter f xs) \<longleftrightarrow> (\<exists>x\<in>set xs. f x = Some r)"
  by (induction xs) (auto simp: List.map_filter_simps split: option.split)

lemma csv_rows_emitted:
  assumes "r \<in> set (rows (parse_csv ck reader uid cats))"
  shows "\<exists>parsed b. csv_emit uid cats b parsed = Some r"
proof (cases "fieldnames reader = []")
  case True
  with assms show ?thesis by (simp add: parse_csv_def)
next
  case False
  let ?b = "detect_bank (fieldnames reader)"
  from assms False
  have "r \<in> set (fst (parse_csv_loop (parser_map ck ?b) uid cats ?b (records reader) [] 0))"
    by (simp add: parse_csv_def Let_def split: prod.splits)
  then obtain raw where
    "Option.bind (parser_map ck ?b raw) (csv_emit uid cats ?b) = Some r"
    by (auto simp: parse_csv_loop_rows set_map_filter_iff)
  then show ?thesis by (cases "parser_map ck ?b raw") auto
qed

lemma process_raw_rows_emitted:
  assumes "r \<in> set (rows (process_raw_rows raws sk b tot uid cats))"
  shows "\<exists>parsed \<in> set raws. pdf_emit uid cats b parsed = Some r"
proof -
  from assms have "r \<in> set (fst (process_loop uid cats b raws [] sk))"
    by (simp add: process_raw_rows_def split: prod.splits)
  then show ?thesis by (simp add: process_loop_rows set_map_filter_iff)
qed

lemma pdf_rows_emitted:
  assumes "parse_pdf ck header pdf uid cats = Inr res" and "r \<in> set (rows res)"
  shows "\<exists>parsed b. pdf_emit uid cats b parsed = Some r"
proof -
  from assms(1) consider
      (mono) "res = parse_monobank_pdf ck pdf uid cats"
    | (abank) "res = parse_abank_pdf ck header pdf uid cats"
    by (auto simp: parse_pdf_def Let_def split: list.splits if_splits)
  then show ?thesis
  proof cases
    case mono
    with assms(2) show ?thesis
      by (auto simp: parse_monobank_pdf_def split: prod.splits if_splits
               dest!: process_raw_rows_emitted)
  next
    case abank
    with assms(2) show ?thesis
      by (auto simp: parse_abank_pdf_def Let_def split: prod.splits if_splits
               dest!: process_raw_rows_emitted)
  qed
qed

subsection \<open>The rows a pipeline emits\<close>

lemma csv_emit_SomeD:
  assumes "csv_emit uid cats b p = Some r"
    and "categorize (r_description p) (r_mcc p) = (cat, ty, ig)"
  shows "c_type r = snd (sign_correction (r_amount p) (r_description p) (cat, ty))"
    and "raw_category (c_metadata r) = fst (sign_correction (r_amount p) (r_description p) (cat, ty))"
    and "category_id r =
           find_category_id cats
             (fst (sign_correction (r_amount p) (r_description p) (cat, ty)))
             (snd (sign_correction (r_amount p) (r_description p) (cat, ty)))"
    and "c_amount r = fl_abs (r_amount p)"
    and "ignore_in_stats r = ig"
    and "source r = asc ''csv''"
    and "\<not> fl_lt (fl_abs (r_amount p)) (Fin (1 / 100))"
  using assms
  by (auto simp: csv_emit_def Let_def split: if_splits prod.splits)

lemma pdf_emit_SomeD:
  assumes "pdf_emit uid cats b p = Some r"
  shows "c_amount r = fl_abs (r_amount p)"
    and "source r = asc ''csv''"
    and "\<not> fl_lt (fl_abs (r_amount p)) (Fin (1 / 100))"
  using assms
  by (auto simp: pdf_emit_def Let_def split: if_splits prod.splits)

lemma csv_emit_None_iff:
  "csv_emit uid cats b p = None \<longleftrightarrow> fl_lt (fl_abs (r_amount p)) (Fin (1 / 100))"
  by (simp add: csv_emit_def Let_def split: prod.splits)

lemma pdf_emit_None_iff:
  "pdf_emit uid cats b p = None \<longleftrightarrow> fl_lt (fl_abs (r_amount p)) (Fin (1 / 100))"
  by (simp add: pdf_emit_def Let_def split: prod.splits)

lemma find_category_id_Nil: "find_category_id [] name tx_type = None"
  by (simp add: find_category_id_def)

lemma parse_csv_single:
  assumes "fieldnames reader \<noteq> []" and "records reader = [raw]"
    and "parser_map ck (detect_bank (fieldnames reader)) raw = Some p"
    and "csv_emit uid cats (detect_bank (fieldnames reader)) p = Some r"
  shows "parse_csv ck reader uid cats
           = \<lparr>rows = [r], skipped = 0, bank = detect_bank (fieldnames reader)\<rparr>"
  using assms by (simp add: parse_csv_def Let_def)

lemma mono_csv_bank: "detect_bank (fieldnames (mono_csv desc mcc amt)) = MONO"
  by (simp add: mono_csv_def detect_bank_def str_eval)

lemma mono_csv_result:
  assumes "parser_map ck MONO (mono_record desc mcc amt) = Some p"
    and "csv_emit uid cats MONO p = Some r"
  shows "parse_csv ck (mono_csv desc mcc amt) uid cats = \<lparr>rows = [r], skipped = 0, bank = MONO\<rparr>"
proof -
  have "fieldnames (mono_csv desc mcc amt) \<noteq> []"
    and "records (mono_csv desc mcc amt) = [mono_record desc mcc amt]"
    by (simp_all add: mono_csv_def)
  from parse_csv_single[OF this] assms show ?thesis
    by (simp add: mono_csv_bank)
qed

lemma mono_pdf_is_monobank:
  "parse_pdf ck header (mono_pdf desc mcc amt) uid cats
     = Inr (parse_monobank_pdf ck (mono_pdf desc mcc amt) uid cats)"
  by (simp add: parse_pdf_def mono_pdf_def or_empty_def str_eval)

lemma mono_pdf_result:
  assumes "pages_loop is_monobank_table (extract_monobank_rows ck) (mono_pdf desc mcc amt) [] 0
             = ([q], 0)"
    and "pdf_emit uid cats MONO q = Some s"
  shows "parse_pdf ck header (mono_pdf desc mcc amt) uid cats
           = Inr \<lparr>rows = [s], skipped = 0, bank = MONO, bank_totals = []\<rparr>"
  using assms
  by (simp add: mono_pdf_is_monobank parse_monobank_pdf_def process_raw_rows_def)

lemma mono_record_nan_parsed:
  "parser_map example_clock MONO (mono_record [1040, 1058, 1041, 32, 1052, 1072, 1088, 1082, 1077, 1090] \<comment> \<open>ATB Market\<close> (asc ''5411'') (asc ''nan''))
     = Some \<lparr>r_date = 0, r_amount = NaN, r_description = [1040, 1058, 1041, 32, 1052, 1072, 1088, 1082, 1077, 1090] \<comment> \<open>ATB Market\<close>, r_mcc = (asc ''5411'')\<rparr>"
  by (simp add: parser_map_def parse_row_mono_def mono_record_def or_empty_def date_or_now_def
      example_clock_def amount_eval float_eval str_eval)

lemma mono_record_debit_parsed:
  "parser_map example_clock MONO (mono_record [1040, 1058, 1041, 32, 1052, 1072, 1088, 1082, 1077, 1090] \<comment> \<open>ATB Market\<close> (asc ''5411'') (asc ''-150.00''))
     = Some \<lparr>r_date = 0, r_amount = Fin (- 150), r_description = [1040, 1058, 1041, 32, 1052, 1072, 1088, 1082, 1077, 1090] \<comment> \<open>ATB Market\<close>,
             r_mcc = (asc ''5411'')\<rparr>"
  by (simp add: parser_map_def parse_row_mono_def mono_record_def or_empty_def date_or_now_def
      example_clock_def amount_eval float_eval str_eval)

lemma mono_pdf_nan_rows:
  "pages_loop is_monobank_table (extract_monobank_rows example_clock)
     (mono_pdf [1040, 1058, 1041, 32, 1052, 1072, 1088, 1082, 1077, 1090] \<comment> \<open>ATB Market\<close> (asc ''5411'') (asc ''nan'')) [] 0
   = ([\<lparr>r_date = 0, r_amount = NaN, r_description = [1040, 1058, 1041, 32, 1052, 1072, 1088, 1082, 1077, 1090] \<comment> \<open>ATB Market\<close> @ asc '' (MCC 5411)'',
        r_mcc = (asc ''5411'')\<rparr>], 0)"
  by (simp add: mono_pdf_def page_tables_def is_monobank_table_def extract_monobank_rows_def
      pdf_row_eval float_eval str_eval)

lemma mono_pdf_debit_rows:
  "pages_loop is_monobank_table (extract_monobank_rows example_clock)
     (mono_pdf [1040, 1058, 1041, 32, 1052, 1072, 1088, 1082, 1077, 1090] \<comment> \<open>ATB Market\<close> (asc ''5411'') (asc ''-150.00'')) [] 0
   = ([\<lparr>r_date = 0, r_amount = Fin (- 150),
        r_description = [1040, 1058, 1041, 32, 1052, 1072, 1088, 1082, 1077, 1090] \<comment> \<open>ATB Market\<close> @ asc '' (MCC 5411)'', r_mcc = (asc ''5411'')\<rparr>], 0)"
  by (simp add: mono_pdf_def page_tables_def is_monobank_table_def extract_monobank_rows_def
      pdf_row_eval float_eval str_eval)

subsection \<open>Amounts\<close>

lemma fl_ge_threshold:
  "x \<noteq> NaN \<Longrightarrow> \<not> fl_lt (fl_abs x) (Fin (1 / 100)) \<Longrightarrow> fl_ge (fl_abs x) (Fin (1 / 100))"
  by (cases x) simp_all

text \<open>What holds of the amounts: an emitted amount is the absolute value of the raw one
  and is not below the threshold; a raw amount that is a number gives an amount of at
  least 0.01; and a row is dropped, and counted, exactly when its absolute amount is
  below 0.01.\<close>

lemma csv_emitted_amount:
  assumes "csv_emit uid cats b p = Some r"
  shows "c_amount r = fl_abs (r_amount p)"
    and "r_amount p \<noteq> NaN \<Longrightarrow> fl_ge (c_amount r) (Fin (1 / 100))"
proof -
  obtain cat ty ig where c: "categorize (r_description p) (r_mcc p) = (cat, ty, ig)"
    by (cases "categorize (r_description p) (r_mcc p)") auto
  from csv_emit_SomeD(4)[OF assms c] show "c_amount r = fl_abs (r_amount p)" .
  with csv_emit_SomeD(7)[OF assms c]
  show "r_amount p \<noteq> NaN \<Longrightarrow> fl_ge (c_amount r) (Fin (1 / 100))"
    by (simp add: fl_ge_threshold)
qed

lemma pdf_emitted_amount:
  assumes "pdf_emit uid cats b p = Some r"
  shows "c_amount r = fl_abs (r_amount p)"
    and "r_amount p \<noteq> NaN \<Longrightarrow> fl_ge (c_amount r) (Fin (1 / 100))"
  using pdf_emit_SomeD[OF assms] by (simp_all add: fl_ge_threshold)

lemma small_amount_is_skipped:
  assumes "parse_row raw = Some p" and "fl_lt (fl_abs (r_amount p)) (Fin (1 / 100))"
  shows "parse_csv_loop parse_row uid cats b (raw # rest) rs sk
           = parse_csv_loop parse_row uid cats b rest rs (sk + 1)"
    and "process_loop uid cats b (p # raws) out sk
           = process_loop uid cats b raws out (sk + 1)"
  using assms by (simp_all add: csv_emit_None_iff[THEN iffD2] pdf_emit_None_iff[THEN iffD2])

text \<open>
  Claim C1 holds of every amount that is a number, by the three lemmas above. It fails
  where the amount cell reads \<^verbatim>\<open>nan\<close>: \<^verbatim>\<open>float("nan")\<close> is a float, its absolute value
  is not below 0.01, so both pipelines emit the row, with an amount that is not at least
  0.01, and count nothing as skipped.
\<close>

theorem nan_amount_is_emitted:
  "map c_amount (rows (parse_csv example_clock (mono_csv [1040, 1058, 1041, 32, 1052, 1072, 1088, 1082, 1077, 1090] \<comment> \<open>ATB Market\<close> (asc ''5411'') (asc ''nan'')) (asc ''user-1'') []))
     = [NaN]
   \<and> skipped (parse_csv example_clock (mono_csv [1040, 1058, 1041, 32, 1052, 1072, 1088, 1082, 1077, 1090] \<comment> \<open>ATB Market\<close> (asc ''5411'') (asc ''nan'')) (asc ''user-1'') []) = 0
   \<and> (\<exists>res. parse_pdf example_clock (\<lambda>pdf. None) (mono_pdf [1040, 1058, 1041, 32, 1052, 1072, 1088, 1082, 1077, 1090] \<comment> \<open>ATB Market\<close> (asc ''5411'') (asc ''nan''))
               (asc ''user-1'') [] = Inr res
          \<and> map c_amount (rows res) = [NaN] \<and> skipped res = 0)
   \<and> \<not> fl_ge NaN (Fin (1 / 100))"
proof -
  let ?p = "\<lparr>r_date = 0 :: nat, r_amount = NaN, r_description = [1040, 1058, 1041, 32, 1052, 1072, 1088, 1082, 1077, 1090] \<comment> \<open>ATB Market\<close>,
             r_mcc = (asc ''5411'')\<rparr>"
  have "csv_emit (asc ''user-1'') [] MONO ?p \<noteq> None"
    by (simp add: csv_emit_None_iff)
  then obtain r where r: "csv_emit (asc ''user-1'') [] MONO ?p = Some r"
    by blast
  from csv_emitted_amount(1)[OF r] have a: "c_amount r = NaN"
    by simp
  note csv = mono_csv_result[OF mono_record_nan_parsed r]
  let ?q = "\<lparr>r_date = 0 :: nat, r_amount = NaN,
             r_description = [1040, 1058, 1041, 32, 1052, 1072, 1088, 1082, 1077, 1090] \<comment> \<open>ATB Market\<close> @ asc '' (MCC 5411)'', r_mcc = (asc ''5411'')\<rparr>"
  have "pdf_emit (asc ''user-1'') [] MONO ?q \<noteq> None"
    by (simp add: pdf_emit_None_iff)
  then obtain s where s: "pdf_emit (asc ''user-1'') [] MONO ?q = Some s"
    by blast
  from pdf_emitted_amount(1)[OF s] have b: "c_amount s = NaN"
    by simp
  note pdf = mono_pdf_result[OF mono_pdf_nan_rows s, of "\<lambda>pdf. None"]
  from csv pdf a b show ?thesis by simp
qed

subsection \<open>The source tag\<close>

lemma debit_csv_rows:
  "\<exists>p r. csv_emit (asc ''user-1'') [] MONO p = Some r
      \<and> rows (parse_csv example_clock (mono_csv [1040, 1058, 1041, 32, 1052, 1072, 1088, 1082, 1077, 1090] \<comment> \<open>ATB Market\<close> (asc ''5411'') (asc ''-150.00'')) (asc ''user-1'') [])
          = [r]"
proof -
  let ?p = "\<lparr>r_date = 0 :: nat, r_amount = Fin (- 150), r_description = [1040, 1058, 1041, 32, 1052, 1072, 1088, 1082, 1077, 1090] \<comment> \<open>ATB Market\<close>,
             r_mcc = (asc ''5411'')\<rparr>"
  have "csv_emit (asc ''user-1'') [] MONO ?p \<noteq> None"
    by (simp add: csv_emit_None_iff)
  then obtain r where r: "csv_emit (asc ''user-1'') [] MONO ?p = Some r"
    by blast
  from mono_csv_result[OF mono_record_debit_parsed r] r show ?thesis
    by auto
qed

lemma debit_pdf_rows:
  "\<exists>q res s. pdf_emit (asc ''user-1'') [] MONO q = Some s
      \<and> parse_pdf example_clock (\<lambda>pdf. None) (mono_pdf [1040, 1058, 1041, 32, 1052, 1072, 1088, 1082, 1077, 1090] \<comment> \<open>ATB Market\<close> (asc ''5411'') (asc ''-150.00''))
            (asc ''user-1'') [] = Inr res
      \<and> rows res = [s]"
proof -
  let ?q = "\<lparr>r_date = 0 :: nat, r_amount = Fin (- 150),
             r_description = [1040, 1058, 1041, 32, 1052, 1072, 1088, 1082, 1077, 1090] \<comment> \<open>ATB Market\<close> @ asc '' (MCC 5411)'', r_mcc = (asc ''5411'')\<rparr>"
  have "pdf_emit (asc ''user-1'') [] MONO ?q \<noteq> None"
    by (simp add: pdf_emit_None_iff)
  then obtain s where s: "pdf_emit (asc ''user-1'') [] MONO ?q = Some s"
    by blast
  from mono_pdf_result[OF mono_pdf_debit_rows s, of "\<lambda>pdf. None"] s show ?thesis
    by auto
qed

text \<open>
  Claim C4, as it is stated, fails: the two pipelines do not carry distinct tags. The
  same payment, read from a CSV export and from a PDF statement, is emitted with the
  tag \<^verbatim>\<open>csv\<close> by both.
\<close>

theorem csv_and_pdf_share_source_tag:
  "(\<exists>r. rows (parse_csv example_clock (mono_csv [1040, 1058, 1041, 32, 1052, 1072, 1088, 1082, 1077, 1090] \<comment> \<open>ATB Market\<close> (asc ''5411'') (asc ''-150.00'')) (asc ''user-1'') [])
          = [r]
        \<and> source r = asc ''csv'')
   \<and> (\<exists>res s. parse_pdf example_clock (\<lambda>pdf. None) (mono_pdf [1040, 1058, 1041, 32, 1052, 1072, 1088, 1082, 1077, 1090] \<comment> \<open>ATB Market\<close> (asc ''5411'') (asc ''-150.00''))
                 (asc ''user-1'') [] = Inr res
          \<and> rows res = [s] \<and> source s = asc ''csv'')"
proof -
  from debit_csv_rows obtain p r where
    r: "csv_emit (asc ''user-1'') [] MONO p = Some r" and
    csv: "rows (parse_csv example_clock (mono_csv [1040, 1058, 1041, 32, 1052, 1072, 1088, 1082, 1077, 1090] \<comment> \<open>ATB Market\<close> (asc ''5411'') (asc ''-150.00'')) (asc ''user-1'') [])
            = [r]"
    by blast
  obtain cat ty ig where "categorize (r_description p) (r_mcc p) = (cat, ty, ig)"
    by (cases "categorize (r_description p) (r_mcc p)") auto
  from csv_emit_SomeD(6)[OF r this] have a: "source r = asc ''csv''" .
  from debit_pdf_rows obtain q res s where
    s: "pdf_emit (asc ''user-1'') [] MONO q = Some s" and
    pdf: "parse_pdf example_clock (\<lambda>pdf. None) (mono_pdf [1040, 1058, 1041, 32, 1052, 1072, 1088, 1082, 1077, 1090] \<comment> \<open>ATB Market\<close> (asc ''5411'') (asc ''-150.00''))
            (asc ''user-1'') [] = Inr res" "rows res = [s]"
    by blast
  from pdf_emit_SomeD(2)[OF s] have b: "source s = asc ''csv''" .
  from csv pdf a b show ?thesis by simp
qed

text \<open>
  Claim C4, amended. The source of every emitted row is the one constant tag
  \<^verbatim>\<open>csv\<close>, in the CSV pipeline and in the PDF pipeline alike.
\<close>

theorem source_tag_is_csv:
  "(r \<in> set (rows (parse_csv ck reader uid cats)) \<longrightarrow> source r = asc ''csv'')
   \<and> (parse_pdf ck header pdf uid cats = Inr res \<and> s \<in> set (rows res)
        \<longrightarrow> source s = asc ''csv'')"
proof (intro conjI impI)
  assume "r \<in> set (rows (parse_csv ck reader uid cats))"
  from csv_rows_emitted[OF this] obtain p b where e: "csv_emit uid cats b p = Some r"
    by blast
  obtain cat ty ig where "categorize (r_description p) (r_mcc p) = (cat, ty, ig)"
    by (cases "categorize (r_description p) (r_mcc p)") auto
  from csv_emit_SomeD(6)[OF e this] show "source r = asc ''csv''" .
next
  assume "parse_pdf ck header pdf uid cats = Inr res \<and> s \<in> set (rows res)"
  then obtain p b where "pdf_emit uid cats b p = Some s"
    using pdf_rows_emitted by blast
  from pdf_emit_SomeD(2)[OF this] show "source s = asc ''csv''" .
qed

theorem source_tag_is_csv_witness:
  "rows (parse_csv example_clock (mono_csv [1040, 1058, 1041, 32, 1052, 1072, 1088, 1082, 1077, 1090] \<comment> \<open>ATB Market\<close> (asc ''5411'') (asc ''-150.00'')) (asc ''user-1'') []) \<noteq> []
   \<and> source (hd (rows (parse_csv example_clock (mono_csv [1040, 1058, 1041, 32, 1052, 1072, 1088, 1082, 1077, 1090] \<comment> \<open>ATB Market\<close> (asc ''5411'') (asc ''-150.00''))
                          (asc ''user-1'') []))) = asc ''csv''
   \<and> (\<exists>res. parse_pdf example_clock (\<lambda>pdf. None) (mono_pdf [1040, 1058, 1041, 32, 1052, 1072, 1088, 1082, 1077, 1090] \<comment> \<open>ATB Market\<close> (asc ''5411'') (asc ''-150.00''))
               (asc ''user-1'') [] = Inr res
          \<and> rows res \<noteq> [] \<and> source (hd (rows res)) = asc ''csv'')"
proof -
  let ?csv = "parse_csv example_clock (mono_csv [1040, 1058, 1041, 32, 1052, 1072, 1088, 1082, 1077, 1090] \<comment> \<open>ATB Market\<close> (asc ''5411'') (asc ''-150.00'')) (asc ''user-1'') []"
  let ?pdf = "parse_pdf example_clock (\<lambda>pdf. None) (mono_pdf [1040, 1058, 1041, 32, 1052, 1072, 1088, 1082, 1077, 1090] \<comment> \<open>ATB Market\<close> (asc ''5411'') (asc ''-150.00''))
                (asc ''user-1'') []"
  from debit_csv_rows obtain r where c: "rows ?csv = [r]"
    by blast
  from debit_pdf_rows obtain res s where p: "?pdf = Inr res" "rows res = [s]"
    by blast
  from c have 1: "hd (rows ?csv) \<in> set (rows ?csv)" by simp
  from p have 2: "?pdf = Inr res \<and> hd (rows res) \<in> set (rows res)" by simp
  note a = source_tag_is_csv[THEN conjunct1, rule_format, OF 1]
  note b = source_tag_is_csv[THEN conjunct2, rule_format, OF 2]
  from a b c p show ?thesis by simp
qed

subsection \<open>The sign correction of the CSV pipeline\<close>

lemma fl_gt_not_lt: "fl_gt x (Fin 0) \<Longrightarrow> \<not> fl_lt x (Fin 0)"
  by (cases x) (simp_all add: fl_gt_def)

text \<open>
  Claim C8. The sign correction changes nothing when the categorizer's type already
  agrees with the sign of the amount: for a row the CSV pipeline emits, if the amount is
  negative and the type is not income, or the amount is positive and the type is not
  expense, the emitted type and category name are the categorizer's.
\<close>

theorem sign_correction_noop:
  assumes "csv_emit uid cats b p = Some r"
    and "categorize (r_description p) (r_mcc p) = (cat, ty, ig)"
    and "(fl_lt (r_amount p) (Fin 0) \<and> ty \<noteq> Income)
         \<or> (fl_gt (r_amount p) (Fin 0) \<and> ty \<noteq> Expense)"
  shows "sign_correction (r_amount p) (r_description p) (cat, ty) = (cat, ty)
         \<and> c_type r = ty \<and> raw_category (c_metadata r) = cat"
proof -
  have "sign_correction (r_amount p) (r_description p) (cat, ty) = (cat, ty)"
    using assms(3) by (auto simp: sign_correction_def Let_def dest: fl_gt_not_lt)
  with csv_emit_SomeD(1,2)[OF assms(1,2)] show ?thesis by simp
qed

text \<open>
  Claim C9. When the amount is negative and the categorizer answered income, the
  correction changes the type to expense and nothing else: the emitted row keeps the
  categorizer's category name, and that name is what the category lookup receives
  together with the type expense.
\<close>

theorem debit_income_keeps_category:
  assumes "csv_emit uid cats b p = Some r"
    and "categorize (r_description p) (r_mcc p) = (cat, Income, ig)"
    and "fl_lt (r_amount p) (Fin 0)"
  shows "c_type r = Expense \<and> raw_category (c_metadata r) = cat
         \<and> category_id r = find_category_id cats cat Expense"
proof -
  have "sign_correction (r_amount p) (r_description p) (cat, Income) = (cat, Expense)"
    using assms(3) by (simp add: sign_correction_def Let_def)
  with csv_emit_SomeD(1,2,3)[OF assms(1,2)] show ?thesis by simp
qed

lemma categorize_supermarket_debit:
  "categorize (r_description supermarket_debit) (r_mcc supermarket_debit)
     = (c_Supermarkety, Expense, False)"
  by (simp add: supermarket_debit_def categorize_def MCC_TO_CATEGORY_def str_eval)

lemma categorize_salary_debit:
  "categorize (r_description salary_debit) (r_mcc salary_debit) = (c_Zarplata, Income, False)"
  by (simp add: salary_debit_def categorize_def KEYWORD_RULES_def str_eval)

theorem sign_correction_noop_witness:
  "csv_emit (asc ''user-1'') [] MONO supermarket_debit \<noteq> None
   \<and> categorize (r_description supermarket_debit) (r_mcc supermarket_debit)
       = (c_Supermarkety, Expense, False)
   \<and> fl_lt (r_amount supermarket_debit) (Fin 0)
   \<and> c_type (the (csv_emit (asc ''user-1'') [] MONO supermarket_debit)) = Expense
   \<and> raw_category (c_metadata (the (csv_emit (asc ''user-1'') [] MONO supermarket_debit)))
       = c_Supermarkety"
proof -
  have a: "fl_lt (r_amount supermarket_debit) (Fin 0)"
    by (simp add: supermarket_debit_def)
  have "csv_emit (asc ''user-1'') [] MONO supermarket_debit \<noteq> None"
    by (simp add: csv_emit_None_iff supermarket_debit_def)
  then obtain r where e: "csv_emit (asc ''user-1'') [] MONO supermarket_debit = Some r"
    by blast
  from sign_correction_noop[OF e categorize_supermarket_debit] a e
  show ?thesis by (simp add: categorize_supermarket_debit)
qed

theorem debit_income_keeps_category_witness:
  "csv_emit (asc ''user-1'') [] MONO salary_debit \<noteq> None
   \<and> categorize (r_description salary_debit) (r_mcc salary_debit) = (c_Zarplata, Income, False)
   \<and> fl_lt (r_amount salary_debit) (Fin 0)
   \<and> c_type (the (csv_emit (asc ''user-1'') [] MONO salary_debit)) = Expense
   \<and> raw_category (c_metadata (the (csv_emit (asc ''user-1'') [] MONO salary_debit))) = c_Zarplata
   \<and> category_id (the (csv_emit (asc ''user-1'') [] MONO salary_debit))
       = find_category_id [] c_Zarplata Expense"
proof -
  have a: "fl_lt (r_amount salary_debit) (Fin 0)"
    by (simp add: salary_debit_def)
  have "csv_emit (asc ''user-1'') [] MONO salary_debit \<noteq> None"
    by (simp add: csv_emit_None_iff salary_debit_def)
  then obtain r where e: "csv_emit (asc ''user-1'') [] MONO salary_debit = Some r"
    by blast
  from debit_income_keeps_category[OF e categorize_salary_debit a] a e
  show ?thesis by (simp add: categorize_salary_debit)
qed

subsection \<open>The classifier of the PDF pipeline\<close>

text \<open>
  Claim C5. A description that \<open>is_person_name\<close> accepts is classified as a transfer to a
  person, whatever the amount and the MCC are.
\<close>

theorem person_name_is_transfer:
  assumes "is_person_name desc"
  shows "classify_transaction raw_amount desc mcc = (c_Perekaz_lyudyni, Transfer, False)"
  using assms by (simp add: classify_transaction_def Let_def)

theorem person_name_is_transfer_witness:
  "is_person_name [1030, 1074, 1072, 1085, 32, 1055, 1077, 1090, 1088, 1077, 1085, 1082, 1086] \<comment> \<open>Ivan Petrenko\<close>
   \<and> classify_transaction (Fin (- 300)) [1030, 1074, 1072, 1085, 32, 1055, 1077, 1090, 1088, 1077, 1085, 1082, 1086] \<comment> \<open>Ivan Petrenko\<close> (asc ''5411'')
       = (c_Perekaz_lyudyni, Transfer, False)"
proof -
  have n: "is_person_name [1030, 1074, 1072, 1085, 32, 1055, 1077, 1090, 1088, 1077, 1085, 1082, 1086] \<comment> \<open>Ivan Petrenko\<close>"
    by (simp add: name_eval del: name_tail.simps)
  from person_name_is_transfer[OF n, of "Fin (- 300)" "asc ''5411''"] n show ?thesis
    by simp
qed

lemma monobank_row_mcc:
  assumes "monobank_row ck row = Some r" and "r_mcc r \<noteq> []"
  shows "\<exists>d. r_description r = d @ asc '' (MCC '' @ r_mcc r @ asc '')''"
  using assms
  by (auto simp: monobank_row_def Let_def split: if_splits option.splits)

lemma mcc_suffix_not_person_name:
  "\<not> is_person_name (d @ asc '' (MCC '' @ m @ asc '')'')"
  by (simp add: is_person_name_def name_forbidden_def asc_simps)

lemma categorize_rules_names:
  "fst (categorize_rules rules d) = c_Inshe
   \<or> fst (categorize_rules rules d) \<in> set (map (\<lambda>rule. fst (snd rule)) rules)"
  by (induction rules d rule: categorize_rules.induct) auto

lemma keyword_names_not_person:
  "c_Perekaz_lyudyni \<notin> set (map (\<lambda>rule. fst (snd rule)) KEYWORD_RULES)"
  by (simp add: KEYWORD_RULES_def category_defs)

lemma mcc_names_not_person:
  "c_Perekaz_lyudyni \<notin> set (map (\<lambda>row. fst (snd row)) MCC_TO_CATEGORY)"
  by (simp add: MCC_TO_CATEGORY_def category_defs)

lemma categorize_not_person: "fst (categorize d m) \<noteq> c_Perekaz_lyudyni"
proof (cases "m \<noteq> [] \<and> map_of MCC_TO_CATEGORY (strip m) \<noteq> None")
  case True
  then obtain c t where s: "map_of MCC_TO_CATEGORY (strip m) = Some (c, t)"
    by auto
  then have "(strip m, c, t) \<in> set MCC_TO_CATEGORY"
    by (rule map_of_SomeD)
  then have "c \<in> set (map (\<lambda>row. fst (snd row)) MCC_TO_CATEGORY)"
    by force
  with mcc_names_not_person have "c \<noteq> c_Perekaz_lyudyni"
    by blast
  with True s show ?thesis by (simp add: categorize_def)
next
  case False
  have "c_Inshe \<noteq> c_Perekaz_lyudyni"
    by (simp add: category_defs)
  moreover from False have "categorize d m = categorize_rules KEYWORD_RULES (lower d)"
    by (auto simp: categorize_def)
  moreover note categorize_rules_names[of KEYWORD_RULES "lower d"] keyword_names_not_person
  ultimately show ?thesis by metis
qed

lemma reinterpreted_not_person:
  assumes "y \<noteq> c_Perekaz_lyudyni"
  shows "fst (case categorize d m of
                (cat_name, tx_type, ignore) \<Rightarrow>
                  if tx_type = x then (y, t, False) else (cat_name, tx_type, ignore))
         \<noteq> c_Perekaz_lyudyni"
  using assms categorize_not_person[of d m] by (cases "categorize d m") auto

lemma classify_not_person:
  assumes "\<not> is_person_name d"
  shows "fst (classify_transaction a d m) \<noteq> c_Perekaz_lyudyni"
proof -
  have n: "c_Inshyj_dokhid \<noteq> c_Perekaz_lyudyni" "c_Perekaz_inshe \<noteq> c_Perekaz_lyudyni"
    "c_Investytsiyi_Skarbnychka \<noteq> c_Perekaz_lyudyni" "c_Zarplata \<noteq> c_Perekaz_lyudyni"
    "c_Frilans \<noteq> c_Perekaz_lyudyni" "c_Inshe \<noteq> c_Perekaz_lyudyni"
    by (simp_all add: category_defs)
  from n assms show ?thesis
    by (simp add: classify_transaction_def Let_def reinterpreted_not_person)
qed

lemma monobank_row_mcc_cell:
  assumes "monobank_row ck row = Some r"
  shows "r_mcc r = strip (or_empty (row ! 2))"
  using assms
  by (auto simp: monobank_row_def Let_def split: if_splits option.splits)

lemma pdf_emit_classified:
  assumes "pdf_emit uid cats b p = Some r"
  shows "(raw_category (c_metadata r), c_type r, ignore_in_stats r)
           = classify_transaction (r_amount p) (r_description p) (r_mcc p)"
  using assms
  by (auto simp: pdf_emit_def Let_def split: if_splits prod.splits)

lemma person_name_example: "is_person_name [1030, 1074, 1072, 1085, 32, 1055, 1077, 1090, 1088, 1077, 1085, 1082, 1086] \<comment> \<open>Ivan Petrenko\<close>"
  by (simp add: name_eval del: name_tail.simps)

lemma person_table_rows:
  "fst (extract_monobank_rows example_clock person_table) =
     [\<lparr>r_date = 0, r_amount = Fin (- 300),
       r_description = [1030, 1074, 1072, 1085, 32, 1055, 1077, 1090, 1088, 1077, 1085, 1082, 1086] \<comment> \<open>Ivan Petrenko\<close> @ asc '' (MCC 4829)'', r_mcc = (asc ''4829'')\<rparr>]"
  by (simp add: extract_monobank_rows_def person_table_def pdf_row_eval float_eval str_eval
      List.map_filter_simps)

lemma blank_mcc_table_rows:
  "fst (extract_monobank_rows example_clock blank_mcc_table) =
     [\<lparr>r_date = 0, r_amount = Fin (- 300), r_description = [1030, 1074, 1072, 1085, 32, 1055, 1077, 1090, 1088, 1077, 1085, 1082, 1086] \<comment> \<open>Ivan Petrenko\<close>, r_mcc = []\<rparr>]"
  by (simp add: extract_monobank_rows_def blank_mcc_table_def pdf_row_eval float_eval str_eval
      List.map_filter_simps)

lemma letter_mcc_table_rows:
  "fst (extract_monobank_rows example_clock letter_mcc_table) =
     [\<lparr>r_date = 0, r_amount = Fin (- 300),
       r_description = [1030, 1074, 1072, 1085, 32, 1055, 1077, 1090, 1088, 1077, 1085, 1082, 1086] \<comment> \<open>Ivan Petrenko\<close> @ asc '' (MCC x)'', r_mcc = asc ''x''\<rparr>]"
  by (simp add: extract_monobank_rows_def letter_mcc_table_def pdf_row_eval float_eval str_eval
      List.map_filter_simps)

lemma mono_pdf_blank_mcc_rows:
  "pages_loop is_monobank_table (extract_monobank_rows example_clock)
     (mono_pdf [1030, 1074, 1072, 1085, 32, 1055, 1077, 1090, 1088, 1077, 1085, 1082, 1086] \<comment> \<open>Ivan Petrenko\<close> (asc '' '') (asc ''-300.00'')) [] 0
   = ([\<lparr>r_date = 0, r_amount = Fin (- 300), r_description = [1030, 1074, 1072, 1085, 32, 1055, 1077, 1090, 1088, 1077, 1085, 1082, 1086] \<comment> \<open>Ivan Petrenko\<close>, r_mcc = []\<rparr>],
      0)"
  by (simp add: mono_pdf_def page_tables_def is_monobank_table_def extract_monobank_rows_def
      pdf_row_eval float_eval str_eval)

text \<open>
  Claim C10, as it is stated, fails. An MCC cell that holds only white space is not
  empty, yet the extractor strips it, appends no suffix, and the row whose description
  is the bare name "Ivan Petrenko" (in Cyrillic) is classified as a transfer to a
  person, by the extractor and the classifier and by the whole PDF pipeline. And where
  the MCC cell holds the letter \<^verbatim>\<open>x\<close>, the suffix is appended but the description
  contains no digit.
\<close>

theorem blank_mcc_row_is_person_transfer:
  "blank_mcc_table ! 1 ! 2 = Some (asc '' '') \<and> asc '' '' \<noteq> []
   \<and> fst (extract_monobank_rows example_clock blank_mcc_table) =
       [\<lparr>r_date = 0, r_amount = Fin (- 300), r_description = [1030, 1074, 1072, 1085, 32, 1055, 1077, 1090, 1088, 1077, 1085, 1082, 1086] \<comment> \<open>Ivan Petrenko\<close>, r_mcc = []\<rparr>]
   \<and> is_person_name [1030, 1074, 1072, 1085, 32, 1055, 1077, 1090, 1088, 1077, 1085, 1082, 1086] \<comment> \<open>Ivan Petrenko\<close>
   \<and> classify_transaction (Fin (- 300)) [1030, 1074, 1072, 1085, 32, 1055, 1077, 1090, 1088, 1077, 1085, 1082, 1086] \<comment> \<open>Ivan Petrenko\<close> [] = (c_Perekaz_lyudyni, Transfer, False)
   \<and> (\<exists>res s. parse_pdf example_clock (\<lambda>pdf. None)
                  (mono_pdf [1030, 1074, 1072, 1085, 32, 1055, 1077, 1090, 1088, 1077, 1085, 1082, 1086] \<comment> \<open>Ivan Petrenko\<close> (asc '' '') (asc ''-300.00'')) (asc ''user-1'') [] = Inr res
          \<and> rows res = [s] \<and> c_description s = Some [1030, 1074, 1072, 1085, 32, 1055, 1077, 1090, 1088, 1077, 1085, 1082, 1086] \<comment> \<open>Ivan Petrenko\<close>
          \<and> raw_category (c_metadata s) = c_Perekaz_lyudyni \<and> c_type s = Transfer)
   \<and> fst (extract_monobank_rows example_clock letter_mcc_table) =
       [\<lparr>r_date = 0, r_amount = Fin (- 300),
         r_description = [1030, 1074, 1072, 1085, 32, 1055, 1077, 1090, 1088, 1077, 1085, 1082, 1086] \<comment> \<open>Ivan Petrenko\<close> @ asc '' (MCC x)'', r_mcc = asc ''x''\<rparr>]
   \<and> \<not> list_ex is_digit ([1030, 1074, 1072, 1085, 32, 1055, 1077, 1090, 1088, 1077, 1085, 1082, 1086] \<comment> \<open>Ivan Petrenko\<close> @ asc '' (MCC x)'')"
proof -
  let ?q = "\<lparr>r_date = 0 :: nat, r_amount = Fin (- 300), r_description = [1030, 1074, 1072, 1085, 32, 1055, 1077, 1090, 1088, 1077, 1085, 1082, 1086] \<comment> \<open>Ivan Petrenko\<close>,
             r_mcc = []\<rparr>"
  have c: "classify_transaction (Fin (- 300)) [1030, 1074, 1072, 1085, 32, 1055, 1077, 1090, 1088, 1077, 1085, 1082, 1086] \<comment> \<open>Ivan Petrenko\<close> []
             = (c_Perekaz_lyudyni, Transfer, False)"
    using person_name_example by (simp add: classify_transaction_def Let_def)
  have "pdf_emit (asc ''user-1'') [] MONO ?q \<noteq> None"
    by (simp add: pdf_emit_None_iff)
  then obtain s where s: "pdf_emit (asc ''user-1'') [] MONO ?q = Some s"
    by blast
  from pdf_emit_classified[OF s] c
  have k: "raw_category (c_metadata s) = c_Perekaz_lyudyni" "c_type s = Transfer"
    by simp_all
  from s have d: "c_description s = Some [1030, 1074, 1072, 1085, 32, 1055, 1077, 1090, 1088, 1077, 1085, 1082, 1086] \<comment> \<open>Ivan Petrenko\<close>"
    by (auto simp: pdf_emit_def Let_def stored_description_def split: if_splits prod.splits)
  note pdf = mono_pdf_result[OF mono_pdf_blank_mcc_rows s, of "\<lambda>pdf. None"]
  have cell: "blank_mcc_table ! 1 ! 2 = Some (asc '' '')" "asc '' '' \<noteq> []"
    by (simp_all add: blank_mcc_table_def asc_simps)
  have g: "\<not> list_ex is_digit ([1030, 1074, 1072, 1085, 32, 1055, 1077, 1090, 1088, 1077, 1085, 1082, 1086] \<comment> \<open>Ivan Petrenko\<close> @ asc '' (MCC x)'')"
    by (simp add: is_digit_def asc_simps)
  from cell blank_mcc_table_rows person_name_example c pdf k d letter_mcc_table_rows g
  show ?thesis by simp
qed

text \<open>
  Claim C10, amended. For every data row of a Monobank PDF table that the extractor
  does not skip and whose MCC cell is not empty once white space is stripped, the
  extractor emits the row with that stripped cell as its code and with " (MCC <code>)"
  appended to the description. The description then contains the two parentheses, and
  a digit whenever the code has one; the person-name test rejects it, and the classifier
  never answers with the category of a transfer to a person for it.
\<close>

theorem monobank_mcc_row_never_person:
  assumes "row \<in> set (drop 1 table)" and "monobank_row ck row = Some r"
    and "strip (or_empty (row ! 2)) \<noteq> []"
  shows "r \<in> set (fst (extract_monobank_rows ck table))
         \<and> r_mcc r = strip (or_empty (row ! 2))
         \<and> (\<exists>d. r_description r = d @ asc '' (MCC '' @ r_mcc r @ asc '')'')
         \<and> 40 \<in> set (r_description r) \<and> 41 \<in> set (r_description r)
         \<and> (list_ex is_digit (r_mcc r) \<longrightarrow> list_ex is_digit (r_description r))
         \<and> \<not> is_person_name (r_description r)
         \<and> fst (classify_transaction raw_amount (r_description r) mcc) \<noteq> c_Perekaz_lyudyni"
proof -
  from assms(1,2) have m: "r \<in> set (fst (extract_monobank_rows ck table))"
    by (auto simp: extract_monobank_rows_def extract_loop_rows set_map_filter_iff)
  note c = monobank_row_mcc_cell[OF assms(2)]
  with assms(3) have "r_mcc r \<noteq> []"
    by simp
  from monobank_row_mcc[OF assms(2) this] obtain d where
    d: "r_description r = d @ asc '' (MCC '' @ r_mcc r @ asc '')''" by blast
  then have p: "40 \<in> set (r_description r)" "41 \<in> set (r_description r)"
    by (simp_all add: asc_simps)
  from d have g: "list_ex is_digit (r_mcc r) \<longrightarrow> list_ex is_digit (r_description r)"
    by (auto simp: list_ex_iff)
  from d have n: "\<not> is_person_name (r_description r)"
    by (simp only: mcc_suffix_not_person_name not_False_eq_True)
  from classify_not_person[OF n]
  have "fst (classify_transaction raw_amount (r_description r) mcc) \<noteq> c_Perekaz_lyudyni" .
  with m c d p g n show ?thesis by blast
qed

lemma person_table_row:
  "monobank_row example_clock (person_table ! 1) =
     Some \<lparr>r_date = 0, r_amount = Fin (- 300),
       r_description = [1030, 1074, 1072, 1085, 32, 1055, 1077, 1090, 1088, 1077, 1085, 1082, 1086] \<comment> \<open>Ivan Petrenko\<close> @ asc '' (MCC 4829)'', r_mcc = (asc ''4829'')\<rparr>"
  by (simp add: person_table_def pdf_row_eval float_eval str_eval)

theorem monobank_mcc_row_never_person_witness:
  "person_table ! 1 \<in> set (drop 1 person_table)
   \<and> strip (or_empty (person_table ! 1 ! 2)) = (asc ''4829'')
   \<and> fst (extract_monobank_rows example_clock person_table) =
       [\<lparr>r_date = 0, r_amount = Fin (- 300),
         r_description = [1030, 1074, 1072, 1085, 32, 1055, 1077, 1090, 1088, 1077, 1085, 1082, 1086] \<comment> \<open>Ivan Petrenko\<close> @ asc '' (MCC 4829)'', r_mcc = (asc ''4829'')\<rparr>]
   \<and> is_person_name [1030, 1074, 1072, 1085, 32, 1055, 1077, 1090, 1088, 1077, 1085, 1082, 1086] \<comment> \<open>Ivan Petrenko\<close>
   \<and> list_ex is_digit ([1030, 1074, 1072, 1085, 32, 1055, 1077, 1090, 1088, 1077, 1085, 1082, 1086] \<comment> \<open>Ivan Petrenko\<close> @ asc '' (MCC 4829)'')
   \<and> \<not> is_person_name ([1030, 1074, 1072, 1085, 32, 1055, 1077, 1090, 1088, 1077, 1085, 1082, 1086] \<comment> \<open>Ivan Petrenko\<close> @ asc '' (MCC 4829)'')
   \<and> fst (classify_transaction (Fin (- 300)) ([1030, 1074, 1072, 1085, 32, 1055, 1077, 1090, 1088, 1077, 1085, 1082, 1086] \<comment> \<open>Ivan Petrenko\<close> @ asc '' (MCC 4829)'') (asc ''4829''))
       \<noteq> c_Perekaz_lyudyni"
proof -
  let ?r = "\<lparr>r_date = 0 :: nat, r_amount = Fin (- 300),
       r_description = [1030, 1074, 1072, 1085, 32, 1055, 1077, 1090, 1088, 1077, 1085, 1082, 1086] \<comment> \<open>Ivan Petrenko\<close> @ asc '' (MCC 4829)'', r_mcc = (asc ''4829'')\<rparr>"
  have m: "person_table ! 1 \<in> set (drop 1 person_table)"
    by (simp add: person_table_def)
  have n: "strip (or_empty (person_table ! 1 ! 2)) = (asc ''4829'')"
    by (simp add: person_table_def or_empty_def str_eval)
  then have n': "strip (or_empty (person_table ! 1 ! 2)) \<noteq> []"
    by (simp add: asc_simps)
  have g: "list_ex is_digit (r_mcc ?r)"
    by (simp add: is_digit_def asc_simps)
  have sel: "r_description ?r = [1030, 1074, 1072, 1085, 32, 1055, 1077, 1090, 1088, 1077, 1085, 1082, 1086] \<comment> \<open>Ivan Petrenko\<close> @ asc '' (MCC 4829)''"
    by simp
  note t = monobank_mcc_row_never_person[OF m person_table_row n', of "Fin (- 300)" "(asc ''4829'')"]
  from t g have e: "list_ex is_digit (r_description ?r)"
    by blast
  from t have a: "\<not> is_person_name (r_description ?r)"
    by blast
  from t
  have b: "fst (classify_transaction (Fin (- 300)) (r_description ?r) (asc ''4829'')) \<noteq> c_Perekaz_lyudyni"
    by blast
  from m n person_table_rows person_name_example e[unfolded sel] a[unfolded sel] b[unfolded sel]
  show ?thesis by blast
qed

subsection \<open>The router of the PDF pipeline\<close>

text \<open>
  Claim C2. When the text of the first page, lower-cased, contains none of the names the
  router looks for, \<open>parse_pdf\<close> raises the explicit error, and there is no result.
\<close>

theorem parse_pdf_unknown_format:
  assumes "pdf = first_page # more_pages"
    and "\<not> list_ex (contains (lower (or_empty (page_text first_page))))
             [(asc ''monobank''), [1091, 1085, 1110, 1074, 1077, 1088, 1089, 1072, 1083, 32, 1073, 1072, 1085, 1082] \<comment> \<open>universal bank\<close>, (asc ''universal bank''), [1072, 45, 1073, 1072, 1085, 1082] \<comment> \<open>a-bank\<close>,
              [1072, 1082, 1094, 1077, 1085, 1090, 45, 1073, 1072, 1085, 1082] \<comment> \<open>aktsent-bank\<close>]"
  shows "parse_pdf ck header pdf uid cats = Inl (ValueError unknown_format_message)
         \<and> (\<nexists>res. parse_pdf ck header pdf uid cats = Inr res)"
  using assms by (simp add: parse_pdf_def Let_def)

theorem parse_pdf_unknown_format_witness:
  "\<not> list_ex (contains (lower (or_empty (page_text privat_page))))
        [(asc ''monobank''), [1091, 1085, 1110, 1074, 1077, 1088, 1089, 1072, 1083, 32, 1073, 1072, 1085, 1082] \<comment> \<open>universal bank\<close>, (asc ''universal bank''), [1072, 45, 1073, 1072, 1085, 1082] \<comment> \<open>a-bank\<close>,
         [1072, 1082, 1094, 1077, 1085, 1090, 45, 1073, 1072, 1085, 1082] \<comment> \<open>aktsent-bank\<close>]
   \<and> parse_pdf example_clock (\<lambda>pdf. None) [privat_page] (asc ''user-1'') []
      = Inl (ValueError unknown_format_message)"
proof -
  have h: "\<not> list_ex (contains (lower (or_empty (page_text privat_page))))
        [(asc ''monobank''), [1091, 1085, 1110, 1074, 1077, 1088, 1089, 1072, 1083, 32, 1073, 1072, 1085, 1082] \<comment> \<open>universal bank\<close>, (asc ''universal bank''), [1072, 45, 1073, 1072, 1085, 1082] \<comment> \<open>a-bank\<close>,
         [1072, 1082, 1094, 1077, 1085, 1090, 45, 1073, 1072, 1085, 1082] \<comment> \<open>aktsent-bank\<close>]"
    by (simp add: privat_page_def or_empty_def str_eval)
  from parse_pdf_unknown_format[OF refl h, of example_clock "\<lambda>pdf. None" "[]" "(asc ''user-1'')" "[]"] h
  show ?thesis by simp
qed

end
